theory Spec2Isabelle
  imports Complex_Main "HOL-Library.Word" "HOL-Library.Sublist"
begin

unbundle bit_operations_syntax

section \<open>Byte codec (package utils)\<close>

type_synonym byte = "8 word"
type_synonym u32 = "32 word"
type_synonym u64 = "64 word"

text \<open>
  An \<open>io.Reader\<close> over an in-memory buffer is the list of bytes not yet consumed.
  A read returns the value together with the rest of the stream, or the error of
  \<open>io.ReadFull\<close>: \<open>EOF\<close> when no byte was left, \<open>ErrUnexpectedEOF\<close> when the
  stream ended inside the buffer being filled.

  An \<open>error\<close> value is one of the two sentinels of package \<open>io\<close>, the invalid-digit
  error of \<open>encoding/hex\<close>, or \<open>Errorf f e\<close>: the error made by \<open>errors.New\<close> or
  \<open>fmt.Errorf\<close> from the format string \<open>f\<close> of the source, wrapping \<open>e\<close> when the
  format has a \<open>%w\<close> or \<open>%v\<close> for an error (the other arguments of the format are not
  kept). \<open>Panic\<close> is a run-time panic (an index out of range, a slice length the
  run-time refuses to allocate): it is not an error value, no caller wraps or handles it
  (the source has no \<open>recover\<close>), and it ends the run.
\<close>

datatype go_error =
  EOF | ErrUnexpectedEOF | InvalidByteError
  | Errorf string "go_error option"
  | Panic string

fun is_panic :: "go_error \<Rightarrow> bool" where
  "is_panic (Panic m) = True"
| "is_panic err = False"

definition ReadFull :: "nat \<Rightarrow> byte list \<Rightarrow> go_error + (byte list \<times> byte list)" where
  "ReadFull n r =
     (if n = 0 then Inr ([], r)
      else if r = [] then Inl EOF
      else if length r < n then Inl ErrUnexpectedEOF
      else Inr (take n r, drop n r))"

text \<open>\<open>binary.LittleEndian\<close>: the first byte is the least significant one.\<close>

fun le_uint :: "byte list \<Rightarrow> 'a::len word" where
  "le_uint [] = 0"
| "le_uint (b # bs) = ucast b OR push_bit 8 (le_uint bs)"

definition ReadCompactSize :: "byte list \<Rightarrow> go_error + (u64 \<times> byte list)" where
  "ReadCompactSize r =
     (case ReadFull 1 r of
        Inl e \<Rightarrow> Inl e
      | Inr (b, r1) \<Rightarrow>
          if hd b = 0xfd then
            (case ReadFull 2 r1 of
               Inl e \<Rightarrow> Inl e
             | Inr (v, r2) \<Rightarrow> Inr (ucast (le_uint v :: 16 word), r2))
          else if hd b = 0xfe then
            (case ReadFull 4 r1 of
               Inl e \<Rightarrow> Inl e
             | Inr (v, r2) \<Rightarrow> Inr (ucast (le_uint v :: 32 word), r2))
          else if hd b = 0xff then
            (case ReadFull 8 r1 of Inl e \<Rightarrow> Inl e | Inr (v, r2) \<Rightarrow> Inr (le_uint v, r2))
          else Inr (ucast (hd b), r1))"

text \<open>
  \<open>XORDecode\<close>: an empty or all-zero key returns the data itself, otherwise every
  index \<open>i\<close> of the data is combined with \<open>key[i % len(key)]\<close>.
\<close>

definition XORDecode :: "byte list \<Rightarrow> byte list \<Rightarrow> byte list" where
  "XORDecode data key =
     (if length key = 0 then data
      else if list_all (\<lambda>b. b = 0) key then data
      else map (\<lambda>i. data ! i XOR key ! (i mod length key)) [0..<length data])"

text \<open>
  \<open>ReadBitcoinVarInt\<close>: the loop reads one byte per round; reading a single byte
  from an exhausted stream is \<open>EOF\<close>. The accumulator \<open>n\<close> is a \<open>uint64\<close>.
\<close>

fun ReadBitcoinVarInt_loop :: "u64 \<Rightarrow> byte list \<Rightarrow> go_error + (u64 \<times> byte list)" where
  "ReadBitcoinVarInt_loop n [] = Inl EOF"
| "ReadBitcoinVarInt_loop n (b # r) =
     (let n' = push_bit 7 n OR ucast (b AND 0x7f)
      in if b AND 0x80 = 0 then Inr (n', r)
         else ReadBitcoinVarInt_loop (n' + 1) r)"

definition ReadBitcoinVarInt :: "byte list \<Rightarrow> go_error + (u64 \<times> byte list)" where
  "ReadBitcoinVarInt r = ReadBitcoinVarInt_loop 0 r"

text \<open>
  \<open>DecompressAmount\<close>: all arithmetic is on \<open>uint64\<close> and wraps; the result is the
  same 64 bits read as \<open>int64\<close>. The two counting loops multiply by ten.
\<close>

fun mul10_times :: "nat \<Rightarrow> u64 \<Rightarrow> u64" where
  "mul10_times 0 n = n"
| "mul10_times (Suc k) n = mul10_times k (n * 10)"

definition DecompressAmount :: "u64 \<Rightarrow> u64" where
  "DecompressAmount x0 =
     (if x0 = 0 then 0
      else
        let x1 = x0 - 1;
            e = x1 mod 10;
            x2 = x1 div 10
        in if e < 9 then
             (let d = x2 mod 9 + 1;
                  x3 = x2 div 9;
                  n = x3 * 10 + d
              in mul10_times (unat e) n)
           else mul10_times 9 (x2 + 1))"

text \<open>
  The amount decompression as the specification words it, with the power of ten in
  closed form, on 64-bit unsigned values as in Bitcoin Core.
\<close>

definition DecompressAmount_spec :: "u64 \<Rightarrow> u64" where
  "DecompressAmount_spec x =
     (if x = 0 then 0
      else
        let y = x - 1; e = y mod 10; q = y div 10
        in if e < 9 then ((q div 9) * 10 + (q mod 9) + 1) * 10 ^ unat e
           else (q + 1) * 10 ^ 9)"

text \<open>\<open>hex.EncodeToString\<close>: two lower-case digits per byte.\<close>

definition hex_digit :: "nat \<Rightarrow> char" where
  "hex_digit d = ''0123456789abcdef'' ! d"

definition EncodeToString :: "byte list \<Rightarrow> string" where
  "EncodeToString bs = concat (map (\<lambda>b. [hex_digit (unat b div 16), hex_digit (unat b mod 16)]) bs)"

text \<open>\<open>ReverseBytes\<close> reverses a byte slice.\<close>

definition ReverseBytes :: "byte list \<Rightarrow> byte list" where
  "ReverseBytes b = map (\<lambda>i. b ! (length b - 1 - i)) [0..<length b]"

text \<open>Modelled from the spec: \<open>Hash.String\<close> of \<open>chainhash\<close>, which is not in the
  repository: a hash is rendered as lower-case hex with the byte order reversed.\<close>

definition Hash_String :: "byte list \<Rightarrow> string" where
  "Hash_String h = EncodeToString (ReverseBytes h)"

text \<open>\<open>HexToBytes\<close>: odd length is rejected, then \<open>hex.DecodeString\<close> decodes pairs of
  digits of either case and fails on any other character.\<close>

definition fromHexChar :: "char \<Rightarrow> nat option" where
  "fromHexChar c =
     (let n = of_char c :: nat
      in if 48 \<le> n \<and> n \<le> 57 then Some (n - 48)
         else if 97 \<le> n \<and> n \<le> 102 then Some (n - 97 + 10)
         else if 65 \<le> n \<and> n \<le> 70 then Some (n - 65 + 10)
         else None)"

fun DecodeString :: "string \<Rightarrow> byte list option" where
  "DecodeString (a # b # cs) =
     (case (fromHexChar a, fromHexChar b) of
        (Some x, Some y) \<Rightarrow>
          (case DecodeString cs of None \<Rightarrow> None | Some bs \<Rightarrow> Some (of_nat (x * 16 + y) # bs))
      | _ \<Rightarrow> None)"
| "DecodeString [a] = None"
| "DecodeString [] = Some []"

definition HexToBytes :: "string \<Rightarrow> go_error + byte list" where
  "HexToBytes hexStr =
     (if length hexStr mod 2 \<noteq> 0 then Inl (Errorf ''invalid hex string: odd length'' None)
      else case DecodeString hexStr of None \<Rightarrow> Inl InvalidByteError | Some bs \<Rightarrow> Inr bs)"

text \<open>The \<open>%d\<close> verb of \<open>fmt.Sprintf\<close> on a non-negative integer.\<close>

fun dec :: "nat \<Rightarrow> string" where
  "dec n = (if n < 10 then [hex_digit n] else dec (n div 10) @ [hex_digit (n mod 10)])"

declare dec.simps [simp del]

section \<open>Script classification, addresses, timelocks and warnings (package analyzer)\<close>

text \<open>
  \<open>ClassifyOutputScript\<close>: the tests are tried in the order of the source. Every index
  read is guarded by the length test in front of it.
\<close>

definition ClassifyOutputScript :: "byte list \<Rightarrow> string" where
  "ClassifyOutputScript scriptPubkey =
     (if length scriptPubkey = 0 then ''unknown''
      else if length scriptPubkey = 25 \<and>
              scriptPubkey ! 0 = 0x76 \<and>
              scriptPubkey ! 1 = 0xa9 \<and>
              scriptPubkey ! 2 = 0x14 \<and>
              scriptPubkey ! 23 = 0x88 \<and>
              scriptPubkey ! 24 = 0xac then ''p2pkh''
      else if length scriptPubkey = 23 \<and>
              scriptPubkey ! 0 = 0xa9 \<and>
              scriptPubkey ! 1 = 0x14 \<and>
              scriptPubkey ! 22 = 0x87 then ''p2sh''
      else if length scriptPubkey = 22 \<and>
              scriptPubkey ! 0 = 0x00 \<and>
              scriptPubkey ! 1 = 0x14 then ''p2wpkh''
      else if length scriptPubkey = 34 \<and>
              scriptPubkey ! 0 = 0x00 \<and>
              scriptPubkey ! 1 = 0x20 then ''p2wsh''
      else if length scriptPubkey = 34 \<and>
              scriptPubkey ! 0 = 0x51 \<and>
              scriptPubkey ! 1 = 0x20 then ''p2tr''
      else if length scriptPubkey > 0 \<and> scriptPubkey ! 0 = 0x6a then ''op_return''
      else ''unknown'')"

text \<open>
  The byte templates of the specification, written with prefixes and suffixes instead of
  indices: a fixed length, a fixed head and (for the two legacy forms) a fixed tail.
\<close>

definition is_p2pkh_template :: "byte list \<Rightarrow> bool" where
  "is_p2pkh_template s \<longleftrightarrow>
     length s = 25 \<and> take 3 s = [0x76, 0xa9, 0x14] \<and> drop 23 s = [0x88, 0xac]"

definition is_p2sh_template :: "byte list \<Rightarrow> bool" where
  "is_p2sh_template s \<longleftrightarrow> length s = 23 \<and> take 2 s = [0xa9, 0x14] \<and> drop 22 s = [0x87]"

definition is_p2wpkh_template :: "byte list \<Rightarrow> bool" where
  "is_p2wpkh_template s \<longleftrightarrow> length s = 22 \<and> take 2 s = [0x00, 0x14]"

definition is_p2wsh_template :: "byte list \<Rightarrow> bool" where
  "is_p2wsh_template s \<longleftrightarrow> length s = 34 \<and> take 2 s = [0x00, 0x20]"

definition is_p2tr_template :: "byte list \<Rightarrow> bool" where
  "is_p2tr_template s \<longleftrightarrow> length s = 34 \<and> take 2 s = [0x51, 0x20]"

definition is_op_return_template :: "byte list \<Rightarrow> bool" where
  "is_op_return_template s \<longleftrightarrow> take 1 s = [0x6a]"

text \<open>
  \<open>GetAddressFromScript\<close>. The address constructors of \<open>btcutil\<close> and the network
  parameters of \<open>chaincfg\<close> are outside the repository: \<open>newAddress kind payload params\<close>
  stands for the constructor of the given kind followed by \<open>EncodeAddress\<close>, and is
  \<open>None\<close> when the constructor returns an error.
\<close>

datatype Params = MainNetParams | TestNet3Params

datatype addr_kind =
  AddressPubKeyHash | AddressScriptHash | AddressWitnessPubKeyHash
  | AddressWitnessScriptHash | AddressTaproot

type_synonym address_encoder = "addr_kind \<Rightarrow> byte list \<Rightarrow> Params \<Rightarrow> string option"

definition slice :: "'a list \<Rightarrow> nat \<Rightarrow> nat \<Rightarrow> 'a list" where
  "slice xs lo hi = take (hi - lo) (drop lo xs)"

definition GetAddressFromScript :: "address_encoder \<Rightarrow> byte list \<Rightarrow> string \<Rightarrow> string option" where
  "GetAddressFromScript newAddress scriptPubkey network =
     (let scriptType = ClassifyOutputScript scriptPubkey;
          netParams = (if network = ''mainnet'' then MainNetParams else TestNet3Params)
      in if scriptType = ''p2pkh'' then
           (if length scriptPubkey \<noteq> 25 then None
            else newAddress AddressPubKeyHash (slice scriptPubkey 3 23) netParams)
         else if scriptType = ''p2sh'' then
           (if length scriptPubkey \<noteq> 23 then None
            else newAddress AddressScriptHash (slice scriptPubkey 2 22) netParams)
         else if scriptType = ''p2wpkh'' then
           (if length scriptPubkey \<noteq> 22 then None
            else newAddress AddressWitnessPubKeyHash (slice scriptPubkey 2 22) netParams)
         else if scriptType = ''p2wsh'' then
           (if length scriptPubkey \<noteq> 34 then None
            else newAddress AddressWitnessScriptHash (slice scriptPubkey 2 34) netParams)
         else if scriptType = ''p2tr'' then
           (if length scriptPubkey \<noteq> 34 then None
            else newAddress AddressTaproot (slice scriptPubkey 2 34) netParams)
         else None)"

definition GetLocktimeType :: "u32 \<Rightarrow> string" where
  "GetLocktimeType locktime =
     (if locktime = 0 then ''none''
      else if locktime < 500000000 then ''block_height''
      else ''unix_timestamp'')"

definition IsRBFSignaling :: "u32 list \<Rightarrow> bool" where
  "IsRBFSignaling sequences = list_ex (\<lambda>seq. seq < 0xfffffffe) sequences"

text \<open>
  An \<open>int64\<close> is a 64-bit word read in two's complement: comparisons are the signed ones
  (\<open><s\<close>), additions and subtractions wrap.
\<close>

type_synonym i64 = "64 word"

record Output =
  out_N :: nat
  out_ValueSats :: i64
  out_ScriptPubkeyHex :: string
  out_ScriptType :: string
  out_Address :: "string option"

text \<open>
  \<open>GenerateWarnings\<close>. A warning is its code. Each of the two loops appends at most once
  and then leaves the loop. The fee rate is a finite \<open>float64\<close>, read as the real number
  it denotes.
\<close>

definition GenerateWarnings :: "i64 \<Rightarrow> real \<Rightarrow> bool \<Rightarrow> Output list \<Rightarrow> string list" where
  "GenerateWarnings feeSats feeRate rbfSignaling outputs =
     (let warnings0 = [];
          warnings1 = (if 1000000 <s feeSats \<or> 200 < feeRate
                       then warnings0 @ [''HIGH_FEE''] else warnings0);
          warnings2 = (if list_ex (\<lambda>out. out_ScriptType out \<noteq> ''op_return'' \<and>
                                          out_ValueSats out <s 546) outputs
                       then warnings1 @ [''DUST_OUTPUT''] else warnings1);
          warnings3 = (if list_ex (\<lambda>out. out_ScriptType out = ''unknown'') outputs
                       then warnings2 @ [''UNKNOWN_OUTPUT_SCRIPT''] else warnings2);
          warnings4 = (if rbfSignaling then warnings3 @ [''RBF_SIGNALING''] else warnings3)
      in warnings4)"

section \<open>Transactions (package parser)\<close>

text \<open>The message types of \<open>btcd/wire\<close>, with the fields the analyzer reads.\<close>

record wire_OutPoint =
  Hash :: "byte list"
  Index :: u32

record wire_TxIn =
  PreviousOutPoint :: wire_OutPoint
  SignatureScript :: "byte list"
  Witness :: "byte list list"
  Sequence :: u32

record wire_TxOut =
  Value :: i64
  PkScript :: "byte list"

record wire_MsgTx =
  Version :: "32 word"
  TxIn :: "wire_TxIn list"
  TxOut :: "wire_TxOut list"
  LockTime :: u32

text \<open>
  What the parser calls outside the repository, taken as parameters:
  \<^item> \<open>Deserialize\<close>, \<open>Serialize\<close>, \<open>TxHash\<close>, \<open>WitnessHash\<close>, \<open>SerializeSize\<close> and
    \<open>SerializeSizeStripped\<close> of \<open>wire.MsgTx\<close> (sizes are lengths, hence naturals;
    \<open>Deserialize\<close> reads from a stream and leaves the rest);
  \<^item> \<open>DoubleHashH\<close> of \<open>chainhash\<close>, the double SHA-256;
  \<^item> the address constructors of \<open>btcutil\<close>;
  \<^item> \<open>ParsePubKey\<close> of \<open>btcec\<close> followed by \<open>SerializeUncompressed\<close>;
  \<^item> \<open>maxAlloc\<close>, the largest length that \<open>make([]byte, n)\<close> allocates in the run:
    the allocation limit of the Go run-time (\<open>2^48\<close> bytes on 64-bit Linux), or less
    where memory is short; a longer request ends the run
    (\<open>makeslice: len out of range\<close>);
  \<^item> \<open>fee_rate\<close>, the \<open>float64\<close> expression
    \<open>math.Round(float64(feeSats) / float64(vbytes) * 100) / 100\<close>, whose value is a
    finite float read as a real number.
\<close>

record library =
  Deserialize :: "byte list \<Rightarrow> go_error + (wire_MsgTx \<times> byte list)"
  Serialize :: "wire_MsgTx \<Rightarrow> byte list"
  TxHash :: "wire_MsgTx \<Rightarrow> byte list"
  WitnessHash :: "wire_MsgTx \<Rightarrow> byte list"
  SerializeSize :: "wire_MsgTx \<Rightarrow> nat"
  SerializeSizeStripped :: "wire_MsgTx \<Rightarrow> nat"
  DoubleHashH :: "byte list \<Rightarrow> byte list"
  NewAddress :: address_encoder
  ParsePubKey :: "byte list \<Rightarrow> byte list option"
  maxAlloc :: u64
  fee_rate :: "i64 \<Rightarrow> nat \<Rightarrow> real"

text \<open>Modelled from the spec: \<open>HasWitness\<close> of \<open>wire.MsgTx\<close>, which is not in the
  repository: the SegWit flag holds when any input has a non-empty witness stack.\<close>

definition HasWitness :: "wire_MsgTx \<Rightarrow> bool" where
  "HasWitness tx = list_ex (\<lambda>txIn. length (Witness txIn) \<noteq> 0) (TxIn tx)"

record PrevoutInput =
  pi_Txid :: string
  pi_Vout :: u32
  pi_ValueSats :: i64
  pi_ScriptPubkeyHex :: string

record Fixture =
  Network :: string
  RawTx :: string
  Prevouts :: "PrevoutInput list"

text \<open>
  The result record of \<open>ParseTransaction\<close>. The per-input records (\<open>Vin\<close>), the
  disassembly strings, the OP_RETURN payload fields and the SegWit-savings record are
  not modelled; no property below reads them.
\<close>

record TransactionOutput =
  tx_OK :: bool
  tx_Network :: string
  tx_Segwit :: bool
  tx_Txid :: string
  tx_Wtxid :: "string option"
  tx_Version :: "32 word"
  tx_Locktime :: u32
  tx_SizeBytes :: nat
  tx_Weight :: nat
  tx_Vbytes :: nat
  tx_FeeSats :: i64
  tx_FeeRateSatVb :: real
  tx_TotalInputSats :: i64
  tx_TotalOutputSats :: i64
  tx_RbfSignaling :: bool
  tx_LocktimeType :: string
  tx_VinCount :: nat
  tx_VoutCount :: nat
  tx_VoutScriptTypes :: "string list"
  tx_Vout :: "Output list"
  tx_Warnings :: "string list"

definition prevout_key :: "string \<Rightarrow> u32 \<Rightarrow> string" where
  "prevout_key txid vout = txid @ '':'' @ dec (unat vout)"

definition coinbaseNullHash :: string where
  "coinbaseNullHash = replicate 64 (CHR ''0'')"

text \<open>The three loops over prevouts and inputs, and the loop over outputs.\<close>

fun build_prevoutMap ::
  "PrevoutInput list \<Rightarrow> (string \<rightharpoonup> PrevoutInput) \<Rightarrow> go_error + (string \<rightharpoonup> PrevoutInput)" where
  "build_prevoutMap [] prevoutMap = Inr prevoutMap"
| "build_prevoutMap (p # ps) prevoutMap =
     (let key = prevout_key (pi_Txid p) (pi_Vout p)
      in if prevoutMap key \<noteq> None then Inl (Errorf ''duplicate prevout'' None)
         else build_prevoutMap ps (prevoutMap(key \<mapsto> p)))"

fun validate_prevouts :: "(string \<rightharpoonup> PrevoutInput) \<Rightarrow> wire_TxIn list \<Rightarrow> go_error + unit" where
  "validate_prevouts prevoutMap [] = Inr ()"
| "validate_prevouts prevoutMap (txIn # rest) =
     (let txidStr = Hash_String (Hash (PreviousOutPoint txIn));
          vout = Index (PreviousOutPoint txIn)
      in if txidStr = coinbaseNullHash \<and> vout = 0xFFFFFFFF
         then validate_prevouts prevoutMap rest
         else if prevoutMap (prevout_key txidStr vout) = None
         then Inl (Errorf ''missing prevout for input %s:%d'' None)
         else validate_prevouts prevoutMap rest)"

fun inputs_loop ::
  "(string \<rightharpoonup> PrevoutInput) \<Rightarrow> wire_TxIn list \<Rightarrow> i64 \<Rightarrow> u32 list \<Rightarrow> i64 \<times> u32 list" where
  "inputs_loop prevoutMap [] totalInputSats sequences = (totalInputSats, sequences)"
| "inputs_loop prevoutMap (txIn # rest) totalInputSats sequences =
     (let txidStr = Hash_String (Hash (PreviousOutPoint txIn));
          vout = Index (PreviousOutPoint txIn);
          isCoinbaseInput = (txidStr = coinbaseNullHash \<and> vout = 0xFFFFFFFF);
          prevout_ValueSats =
            (if \<not> isCoinbaseInput
             then (case prevoutMap (prevout_key txidStr vout) of
                     Some prevout \<Rightarrow> pi_ValueSats prevout
                   | None \<Rightarrow> 0)
             else 0)
      in inputs_loop prevoutMap rest (totalInputSats + prevout_ValueSats)
           (sequences @ [Sequence txIn]))"

fun outputs_loop ::
  "library \<Rightarrow> string \<Rightarrow> wire_TxOut list \<Rightarrow> nat \<Rightarrow> Output list \<Rightarrow> i64 \<Rightarrow> Output list \<times> i64" where
  "outputs_loop lib network [] i outputs totalOutputSats = (outputs, totalOutputSats)"
| "outputs_loop lib network (txOut # rest) i outputs totalOutputSats =
     (let scriptPubkey = PkScript txOut;
          output = \<lparr> out_N = i,
                     out_ValueSats = Value txOut,
                     out_ScriptPubkeyHex = EncodeToString scriptPubkey,
                     out_ScriptType = ClassifyOutputScript scriptPubkey,
                     out_Address = GetAddressFromScript (NewAddress lib) scriptPubkey network \<rparr>
      in outputs_loop lib network rest (i + 1) (outputs @ [output])
           (totalOutputSats + Value txOut))"

definition ParseTransaction :: "library \<Rightarrow> Fixture \<Rightarrow> go_error + TransactionOutput" where
  "ParseTransaction lib fixture =
     (case HexToBytes (RawTx fixture) of
        Inl err \<Rightarrow> Inl (Errorf ''invalid raw_tx hex: %w'' (Some err))
      | Inr rawTxBytes \<Rightarrow>
     (case Deserialize lib rawTxBytes of
        Inl err \<Rightarrow> Inl (Errorf ''failed to deserialize transaction: %w'' (Some err))
      | Inr (tx, _) \<Rightarrow>
     (case build_prevoutMap (Prevouts fixture) Map.empty of
        Inl err \<Rightarrow> Inl err
      | Inr prevoutMap \<Rightarrow>
     (case validate_prevouts prevoutMap (TxIn tx) of
        Inl err \<Rightarrow> Inl err
      | Inr _ \<Rightarrow>
        let isSegwit = HasWitness tx;
            txid = Hash_String (TxHash lib tx);
            wtxid = (if isSegwit then Some (Hash_String (WitnessHash lib tx)) else None);
            sizeBytes = SerializeSize lib tx;
            baseSize = SerializeSizeStripped lib tx;
            totalSize = sizeBytes;
            weight = baseSize * 3 + totalSize;
            vbytes = (weight + 3) div 4;
            (totalInputSats, sequences) = inputs_loop prevoutMap (TxIn tx) 0 [];
            (outputs, totalOutputSats) = outputs_loop lib (Network fixture) (TxOut tx) 0 [] 0;
            feeSats = totalInputSats - totalOutputSats;
            feeRate = fee_rate lib feeSats vbytes;
            locktimeType = GetLocktimeType (LockTime tx);
            rbfSignaling = IsRBFSignaling sequences;
            voutScriptTypes = map out_ScriptType outputs;
            warnings = GenerateWarnings feeSats feeRate rbfSignaling outputs
        in Inr \<lparr> tx_OK = True,
                 tx_Network = Network fixture,
                 tx_Segwit = isSegwit,
                 tx_Txid = txid,
                 tx_Wtxid = wtxid,
                 tx_Version = Version tx,
                 tx_Locktime = LockTime tx,
                 tx_SizeBytes = sizeBytes,
                 tx_Weight = weight,
                 tx_Vbytes = vbytes,
                 tx_FeeSats = feeSats,
                 tx_FeeRateSatVb = feeRate,
                 tx_TotalInputSats = totalInputSats,
                 tx_TotalOutputSats = totalOutputSats,
                 tx_RbfSignaling = rbfSignaling,
                 tx_LocktimeType = locktimeType,
                 tx_VinCount = length (TxIn tx),
                 tx_VoutCount = length outputs,
                 tx_VoutScriptTypes = voutScriptTypes,
                 tx_Vout = outputs,
                 tx_Warnings = warnings \<rparr>))))"

section \<open>Undo files and blocks (package parser)\<close>

text \<open>
  \<open>computeMerkleRoot\<close>: the loop walks the level with a step of two, taking
  \<open>txHashes[i]\<close> for both sides when \<open>i + 1\<close> is past the end; the function then calls
  itself on the next level. The hash of the pair is \<open>chainhash.DoubleHashH\<close>.
\<close>

function merkle_loop ::
  "(byte list \<Rightarrow> byte list) \<Rightarrow> byte list list \<Rightarrow> nat \<Rightarrow> byte list list \<Rightarrow> byte list list" where
  "merkle_loop H txHashes i nextLevel =
     (if i < length txHashes then
        (let left = txHashes ! i;
             right = (if i + 1 < length txHashes then txHashes ! (i + 1) else txHashes ! i);
             combined = left @ right;
             hash = H combined
         in merkle_loop H txHashes (i + 2) (nextLevel @ [hash]))
      else nextLevel)"
  by pat_completeness auto
termination
  by (relation "measure (\<lambda>(H, txHashes, i, nextLevel). length txHashes - i)") auto

declare merkle_loop.simps [simp del]

function computeMerkleRoot :: "(byte list \<Rightarrow> byte list) \<Rightarrow> byte list list \<Rightarrow> byte list" where
  "computeMerkleRoot H txHashes =
     (if length txHashes = 0 then replicate 32 0
      else if length txHashes = 1 then txHashes ! 0
      else computeMerkleRoot H (merkle_loop H txHashes 0 []))"
  by pat_completeness auto
termination
proof (relation "measure (\<lambda>(H, txHashes). length txHashes)")
  show "wf (measure (\<lambda>(H :: byte list \<Rightarrow> byte list, txHashes :: byte list list). length txHashes))"
    by simp
next
  fix H :: "byte list \<Rightarrow> byte list" and txHashes :: "byte list list"
  assume a: "length txHashes \<noteq> 0" "length txHashes \<noteq> 1"
  have len: "length (merkle_loop H txHashes i acc) = length acc + (length txHashes - i + 1) div 2"
    for i acc
  proof (induction H txHashes i acc rule: merkle_loop.induct)
    case (1 H txHashes i nextLevel)
    show ?case
    proof (cases "i < length txHashes")
      case True
      then show ?thesis
        using "1.IH" [OF True refl refl refl refl]
        by (subst merkle_loop.simps) (simp add: Let_def, arith)
    next
      case False
      then show ?thesis by (subst merkle_loop.simps) simp
    qed
  qed
  from a have "2 \<le> length txHashes" by arith
  then have "(length txHashes + 1) div 2 < length txHashes" by arith
  then show "((H, merkle_loop H txHashes 0 []), (H, txHashes))
               \<in> measure (\<lambda>(H, txHashes). length txHashes)"
    by (simp add: len)
qed

declare computeMerkleRoot.simps [simp del]

text \<open>
  One level of the tree as the specification words it: neighbours are hashed pairwise and
  an odd trailing node is paired with itself.
\<close>

fun pair_level :: "(byte list \<Rightarrow> byte list) \<Rightarrow> byte list list \<Rightarrow> byte list list" where
  "pair_level H [] = []"
| "pair_level H [x] = [H (x @ x)]"
| "pair_level H (x # y # rest) = H (x @ y) # pair_level H rest"

text \<open>
  \<open>readUndoPrevout\<close>. The \<open>switch\<close> on \<open>nSize\<close> rebuilds the script. The buffer of a
  raw script is made with \<open>nSize - 6\<close> bytes, a \<open>uint64\<close> taken from the file without
  any bound: for a length that is negative as an \<open>int\<close> or beyond the allocation
  limit \<open>make\<close> panics, and the panic leaves \<open>readUndoPrevout\<close> and all its callers.
\<close>

definition undo_script :: "library \<Rightarrow> u64 \<Rightarrow> byte list \<Rightarrow> go_error + (byte list \<times> byte list)" where
  "undo_script lib nSize r =
     (if nSize = 0 then
        (case ReadFull 20 r of
           Inl err \<Rightarrow> Inl (Errorf ''readUndoPrevout P2PKH hash: %w'' (Some err))
         | Inr (hash, r') \<Rightarrow> Inr (([0x76, 0xa9, 0x14] @ hash) @ [0x88, 0xac], r'))
      else if nSize = 1 then
        (case ReadFull 20 r of
           Inl err \<Rightarrow> Inl (Errorf ''readUndoPrevout P2SH hash: %w'' (Some err))
         | Inr (hash, r') \<Rightarrow> Inr (([0xa9, 0x14] @ hash) @ [0x87], r'))
      else if nSize = 2 \<or> nSize = 3 then
        (case ReadFull 32 r of
           Inl err \<Rightarrow> Inl (Errorf ''readUndoPrevout P2PK compressed: %w'' (Some err))
         | Inr (x, r') \<Rightarrow> Inr (([0x21] @ (ucast nSize # x)) @ [0xac], r'))
      else if nSize = 4 \<or> nSize = 5 then
        (case ReadFull 32 r of
           Inl err \<Rightarrow> Inl (Errorf ''readUndoPrevout P2PK uncompressed: %w'' (Some err))
         | Inr (xcoord, r') \<Rightarrow>
             (let compressedKey = [ucast (nSize - 2)] @ xcoord
              in case ParsePubKey lib compressedKey of
                   None \<Rightarrow> Inr (([0x21] @ compressedKey) @ [0xac], r')
                 | Some uncompressed \<Rightarrow> Inr (([0x41] @ uncompressed) @ [0xac], r')))
      else
        (let scriptLen = nSize - 6
         in if scriptLen > 0x7FFFFFFFFFFFFFFF \<or> scriptLen > maxAlloc lib
            then Inl (Panic ''makeslice: len out of range'')
            else
              case ReadFull (unat scriptLen) r of
                Inl err \<Rightarrow>
                  Inl (Errorf ''readUndoPrevout raw script (len=%d): %w'' (Some err))
              | Inr (scriptPubkey, r') \<Rightarrow> Inr (scriptPubkey, r')))"

definition readUndoPrevout :: "library \<Rightarrow> byte list \<Rightarrow> go_error + (PrevoutInput \<times> byte list)" where
  "readUndoPrevout lib r =
     (case ReadBitcoinVarInt r of
        Inl err \<Rightarrow> Inl (Errorf ''readUndoPrevout nCode: %w'' (Some err))
      | Inr (nCode, r1) \<Rightarrow>
     (let nHeight = drop_bit 1 nCode
      in case (if nHeight > 0
               then (case ReadBitcoinVarInt r1 of
                       Inl err \<Rightarrow> Inl (Errorf ''readUndoPrevout nVersionDummy: %w'' (Some err))
                     | Inr (_, r2) \<Rightarrow> Inr r2)
               else Inr r1) of
           Inl err \<Rightarrow> Inl err
         | Inr r2 \<Rightarrow>
     (case ReadBitcoinVarInt r2 of
        Inl err \<Rightarrow> Inl (Errorf ''readUndoPrevout amount: %w'' (Some err))
      | Inr (compressedAmount, r3) \<Rightarrow>
     (let valueSats = DecompressAmount compressedAmount
      in case ReadBitcoinVarInt r3 of
           Inl err \<Rightarrow> Inl (Errorf ''readUndoPrevout nSize: %w'' (Some err))
         | Inr (nSize, r4) \<Rightarrow>
     (case undo_script lib nSize r4 of
        Inl err \<Rightarrow> Inl err
      | Inr (scriptPubkey, r5) \<Rightarrow>
          Inr (\<lparr> pi_Txid = [], pi_Vout = 0, pi_ValueSats = valueSats,
                 pi_ScriptPubkeyHex = EncodeToString scriptPubkey \<rparr>, r5))))))"

text \<open>The two counting loops of a matching record; the counters are \<open>uint64\<close>. An
  error of \<open>readUndoPrevout\<close> is wrapped; a panic is not an error and passes.\<close>

fun read_inputs ::
  "library \<Rightarrow> nat \<Rightarrow> byte list \<Rightarrow> PrevoutInput list \<Rightarrow> go_error + (PrevoutInput list \<times> byte list)" where
  "read_inputs lib 0 r txPrevouts = Inr (txPrevouts, r)"
| "read_inputs lib (Suc k) r txPrevouts =
     (case readUndoPrevout lib r of
        Inl err \<Rightarrow>
          if is_panic err then Inl err
          else Inl (Errorf ''parseUndoFile: tx %d input %d: %w'' (Some err))
      | Inr (prevout, r') \<Rightarrow> read_inputs lib k r' (txPrevouts @ [prevout]))"

fun read_tx_undos ::
  "library \<Rightarrow> nat \<Rightarrow> byte list \<Rightarrow> PrevoutInput list list \<Rightarrow> go_error + PrevoutInput list list" where
  "read_tx_undos lib 0 r allPrevouts = Inr allPrevouts"
| "read_tx_undos lib (Suc k) r allPrevouts =
     (case ReadCompactSize r of
        Inl err \<Rightarrow> Inl (Errorf ''parseUndoFile: tx %d: failed to read input count: %w'' (Some err))
      | Inr (inputCount, r1) \<Rightarrow>
          (case read_inputs lib (unat inputCount) r1 [] of
             Inl err \<Rightarrow> Inl err
           | Inr (txPrevouts, r2) \<Rightarrow> read_tx_undos lib k r2 (allPrevouts @ [txPrevouts])))"

text \<open>
  \<open>parseUndoFile\<close>. The \<open>io.ReadSeeker\<close> is a buffer with an offset; \<open>Seek\<close> to an
  absolute offset sets it (also past the end, where every read is \<open>EOF\<close>), and reads
  see the bytes from the offset on. One round of the loop starts at \<open>recordStart\<close>.
\<close>

record ReadSeeker =
  rs_data :: "byte list"
  rs_offset :: nat

function parseUndoFile_loop ::
  "library \<Rightarrow> byte list \<Rightarrow> nat \<Rightarrow> u64 \<Rightarrow> go_error + PrevoutInput list list" where
  "parseUndoFile_loop lib data recordStart wantCount =
     (case ReadFull 8 (drop recordStart data) of
        Inl err \<Rightarrow>
          if err = EOF \<or> err = ErrUnexpectedEOF
          then Inl (Errorf ''parseUndoFile: no matching undo record found in rev file'' None)
          else Inl (Errorf ''parseUndoFile: failed to read 8-byte magic+size header: %w''
                      (Some err))
      | Inr (header, r1) \<Rightarrow>
          (let undoSize = (le_uint (slice header 4 8) :: u32)
           in case ReadCompactSize r1 of
                Inl err \<Rightarrow>
                  Inl (Errorf ''parseUndoFile: failed to read tx undo count: %w'' (Some err))
              | Inr (txUndoCount, r2) \<Rightarrow>
                  if txUndoCount \<noteq> wantCount then
                    (let nextRecord = recordStart + 8 + unat undoSize + 32
                     in parseUndoFile_loop lib data nextRecord wantCount)
                  else read_tx_undos lib (unat txUndoCount) r2 []))"
  by pat_completeness auto
termination
proof (relation "measure (\<lambda>(lib, data, recordStart, wantCount). length data - recordStart)")
  show "wf (measure (\<lambda>(lib :: library, data :: byte list, recordStart :: nat, wantCount :: u64).
              length data - recordStart))"
    by simp
next
  fix lib :: library and data :: "byte list" and recordStart :: nat and wantCount :: u64
    and header r1 :: "byte list" and x2 :: "byte list \<times> byte list" and undoSize :: u32
    and nextRecord :: nat
  assume rd: "ReadFull 8 (drop recordStart data) = Inr x2"
    and nx: "nextRecord = recordStart + 8 + unat undoSize + 32"
  from rd have "8 \<le> length (drop recordStart data)"
    by (simp add: ReadFull_def split: if_splits)
  then have "recordStart + 8 \<le> length data" by simp
  with nx show "((lib, data, nextRecord, wantCount), (lib, data, recordStart, wantCount))
         \<in> measure (\<lambda>(lib, data, recordStart, wantCount). length data - recordStart)"
    by simp
qed

declare parseUndoFile_loop.simps [simp del]

definition parseUndoFile ::
  "library \<Rightarrow> ReadSeeker \<Rightarrow> wire_MsgTx list \<Rightarrow> go_error + PrevoutInput list list" where
  "parseUndoFile lib r transactions =
     (let wantCount = (of_int (int (length transactions) - 1) :: u64)
      in parseUndoFile_loop lib (rs_data r) (rs_offset r) wantCount)"

text \<open>
  Modelled from the spec: \<open>BlockHeader.Deserialize\<close> and \<open>BlockHash\<close> of \<open>btcd/wire\<close>,
  which are not in the repository. 80 bytes are read as the header (version, previous
  hash, Merkle root, timestamp, bits, nonce); the block hash is the double SHA-256 of
  those 80 bytes.
\<close>

definition BlockHeader_Deserialize :: "byte list \<Rightarrow> go_error + (byte list \<times> byte list)" where
  "BlockHeader_Deserialize r = ReadFull 80 r"

definition hdr_Version :: "byte list \<Rightarrow> 32 word" where
  "hdr_Version header = le_uint (slice header 0 4)"

definition hdr_PrevBlock :: "byte list \<Rightarrow> byte list" where
  "hdr_PrevBlock header = slice header 4 36"

definition hdr_MerkleRoot :: "byte list \<Rightarrow> byte list" where
  "hdr_MerkleRoot header = slice header 36 68"

definition hdr_Timestamp :: "byte list \<Rightarrow> u32" where
  "hdr_Timestamp header = le_uint (slice header 68 72)"

definition hdr_Bits :: "byte list \<Rightarrow> byte list" where
  "hdr_Bits header = slice header 72 76"

definition hdr_Nonce :: "byte list \<Rightarrow> u32" where
  "hdr_Nonce header = le_uint (slice header 76 80)"

definition BlockHash :: "library \<Rightarrow> byte list \<Rightarrow> byte list" where
  "BlockHash lib header = DoubleHashH lib header"

text \<open>
  The result record of the block analyzer. An absent \<open>Error\<close> is \<open>None\<close>; a present one
  is its code (the free-text message is not modelled). The average fee rate (a float) and
  the script-type summary are not modelled. \<open>blk_Bits\<close> is the \<open>%08x\<close> rendering.
\<close>

record BlockOutput =
  blk_OK :: bool
  blk_Mode :: string
  blk_Version :: "32 word"
  blk_PrevBlockHash :: string
  blk_MerkleRoot :: string
  blk_MerkleRootValid :: bool
  blk_Timestamp :: u32
  blk_Bits :: string
  blk_Nonce :: u32
  blk_BlockHash :: string
  blk_TxCount :: nat
  blk_Bip34Height :: i64
  blk_CoinbaseScriptHex :: string
  blk_CoinbaseTotalOutputSats :: i64
  blk_Transactions :: "TransactionOutput list"
  blk_TotalFeesSats :: i64
  blk_TotalWeight :: nat
  blk_Error :: "string option"

text \<open>The record returned on the two failures of the block analyzer: only \<open>OK\<close>,
  \<open>Mode\<close>, the block hash and the error are set, every other field has its zero value.\<close>

definition error_BlockOutput :: "string \<Rightarrow> string \<Rightarrow> BlockOutput" where
  "error_BlockOutput blockHash code =
     \<lparr> blk_OK = False, blk_Mode = ''block'', blk_Version = 0, blk_PrevBlockHash = [],
       blk_MerkleRoot = [], blk_MerkleRootValid = False, blk_Timestamp = 0, blk_Bits = [],
       blk_Nonce = 0, blk_BlockHash = blockHash, blk_TxCount = 0, blk_Bip34Height = 0,
       blk_CoinbaseScriptHex = [], blk_CoinbaseTotalOutputSats = 0, blk_Transactions = [],
       blk_TotalFeesSats = 0, blk_TotalWeight = 0, blk_Error = Some code \<rparr>"

definition extractBIP34Height :: "byte list \<Rightarrow> i64" where
  "extractBIP34Height scriptSig =
     (if length scriptSig < 2 then 0
      else
        let pushLen = unat (scriptSig ! 0)
        in if pushLen < 1 \<or> pushLen > 8 \<or> 1 + pushLen > length scriptSig then 0
           else le_uint (slice scriptSig 1 (1 + pushLen)))"

definition analyzeTransaction ::
  "library \<Rightarrow> wire_MsgTx \<Rightarrow> Fixture \<Rightarrow> bool \<Rightarrow> go_error + TransactionOutput" where
  "analyzeTransaction lib tx fixture isCoinbase =
     (let fixture1 = fixture\<lparr> RawTx := EncodeToString (Serialize lib tx) \<rparr>;
          fixture2 = (if isCoinbase then fixture1\<lparr> Prevouts := [] \<rparr> else fixture1)
      in ParseTransaction lib fixture2)"

text \<open>The first part of \<open>parseOneBlock\<close>: the record framing, the header, the
  transaction count and the transactions with their hashes.\<close>

fun read_transactions ::
  "library \<Rightarrow> nat \<Rightarrow> byte list \<Rightarrow> wire_MsgTx list \<Rightarrow> byte list list \<Rightarrow>
     go_error + (wire_MsgTx list \<times> byte list list)" where
  "read_transactions lib 0 r transactions txHashes = Inr (transactions, txHashes)"
| "read_transactions lib (Suc k) r transactions txHashes =
     (case Deserialize lib r of
        Inl err \<Rightarrow> Inl (Errorf ''failed to parse tx %d: %w'' (Some err))
      | Inr (tx, r') \<Rightarrow>
          read_transactions lib k r' (transactions @ [tx]) (txHashes @ [TxHash lib tx]))"

definition read_block ::
  "library \<Rightarrow> byte list \<Rightarrow> go_error + (byte list \<times> u64 \<times> wire_MsgTx list \<times> byte list list)" where
  "read_block lib blkReader =
     (case ReadFull 4 blkReader of
        Inl err \<Rightarrow> Inl err
      | Inr (magic, r1) \<Rightarrow>
     (case ReadFull 4 r1 of
        Inl err \<Rightarrow> Inl (Errorf ''failed to read block size: %w'' (Some err))
      | Inr (blockSizeLE, r2) \<Rightarrow>
     (case BlockHeader_Deserialize r2 of
        Inl err \<Rightarrow> Inl (Errorf ''failed to parse block header: %w'' (Some err))
      | Inr (header, r3) \<Rightarrow>
     (case ReadCompactSize r3 of
        Inl err \<Rightarrow> Inl (Errorf ''failed to read tx count: %w'' (Some err))
      | Inr (txCount, r4) \<Rightarrow>
     (case read_transactions lib (unat txCount) r4 [] [] of
        Inl err \<Rightarrow> Inl err
      | Inr (transactions, txHashes) \<Rightarrow> Inr (header, txCount, transactions, txHashes))))))"

text \<open>The last part of \<open>parseOneBlock\<close>: the coinbase summary, the analysis of every
  transaction with the prevouts of the undo record, and the totals. An index past the
  end of a slice is a panic.\<close>

fun prevout_inputs ::
  "PrevoutInput list list \<Rightarrow> nat \<Rightarrow> wire_TxIn list \<Rightarrow> nat \<Rightarrow> PrevoutInput list \<Rightarrow>
     go_error + PrevoutInput list" where
  "prevout_inputs prevouts i [] j prevoutInputs = Inr prevoutInputs"
| "prevout_inputs prevouts i (txIn # rest) j prevoutInputs =
     (if i - 1 < length prevouts \<and> j < length (prevouts ! (i - 1)) then
        (let p = prevouts ! (i - 1) ! j;
             p' = p\<lparr> pi_Txid := Hash_String (Hash (PreviousOutPoint txIn)),
                     pi_Vout := Index (PreviousOutPoint txIn) \<rparr>
         in prevout_inputs prevouts i rest (j + 1) (prevoutInputs @ [p']))
      else Inl (Panic ''index out of range''))"

fun analyze_transactions ::
  "library \<Rightarrow> PrevoutInput list list \<Rightarrow> wire_MsgTx list \<Rightarrow> nat \<Rightarrow> TransactionOutput list \<Rightarrow>
     i64 \<Rightarrow> nat \<Rightarrow> go_error + (TransactionOutput list \<times> i64 \<times> nat)" where
  "analyze_transactions lib prevouts [] i txOutputs totalFees totalWeight =
     Inr (txOutputs, totalFees, totalWeight)"
| "analyze_transactions lib prevouts (tx # rest) i txOutputs totalFees totalWeight =
     (case (if i > 0 then prevout_inputs prevouts i (TxIn tx) 0 [] else Inr []) of
        Inl err \<Rightarrow> Inl err
      | Inr prevoutInputs \<Rightarrow>
          (let fixture = \<lparr> Network = ''mainnet'', RawTx = [], Prevouts = prevoutInputs \<rparr>
           in case analyzeTransaction lib tx fixture (i = 0) of
                Inl err \<Rightarrow> Inl (Errorf ''failed to analyze tx %d: %w'' (Some err))
              | Inr txOutput \<Rightarrow>
                  analyze_transactions lib prevouts rest (i + 1) (txOutputs @ [txOutput])
                    (if i > 0 then totalFees + tx_FeeSats txOutput else totalFees)
                    (totalWeight + tx_Weight txOutput)))"

definition finish_block ::
  "library \<Rightarrow> byte list \<Rightarrow> u64 \<Rightarrow> wire_MsgTx list \<Rightarrow> PrevoutInput list list \<Rightarrow>
     go_error + BlockOutput" where
  "finish_block lib header txCount transactions prevouts =
     (if length transactions = 0 then Inl (Panic ''index out of range'')
      else
        let coinbaseTx = transactions ! 0
        in if length (TxIn coinbaseTx) = 0 then Inl (Panic ''index out of range'')
           else
             let coinbaseScript = SignatureScript (TxIn coinbaseTx ! 0);
                 bip34Height = extractBIP34Height coinbaseScript;
                 coinbaseOutputTotal = foldl (\<lambda>total out. total + Value out) 0 (TxOut coinbaseTx)
             in case analyze_transactions lib prevouts transactions 0 [] 0 0 of
                  Inl err \<Rightarrow> Inl err
                | Inr (txOutputs, totalFees, totalWeight) \<Rightarrow>
                    Inr \<lparr> blk_OK = True, blk_Mode = ''block'',
                          blk_Version = hdr_Version header,
                          blk_PrevBlockHash = Hash_String (hdr_PrevBlock header),
                          blk_MerkleRoot = Hash_String (hdr_MerkleRoot header),
                          blk_MerkleRootValid = True,
                          blk_Timestamp = hdr_Timestamp header,
                          blk_Bits = EncodeToString (rev (hdr_Bits header)),
                          blk_Nonce = hdr_Nonce header,
                          blk_BlockHash = Hash_String (BlockHash lib header),
                          blk_TxCount = unat txCount,
                          blk_Bip34Height = bip34Height,
                          blk_CoinbaseScriptHex = EncodeToString coinbaseScript,
                          blk_CoinbaseTotalOutputSats = coinbaseOutputTotal,
                          blk_Transactions = txOutputs,
                          blk_TotalFeesSats = totalFees,
                          blk_TotalWeight = totalWeight,
                          blk_Error = None \<rparr>)"

definition parseOneBlock :: "library \<Rightarrow> byte list \<Rightarrow> ReadSeeker \<Rightarrow> go_error + BlockOutput" where
  "parseOneBlock lib blkReader revReader =
     (case read_block lib blkReader of
        Inl err \<Rightarrow> Inl err
      | Inr (header, txCount, transactions, txHashes) \<Rightarrow>
          (let blockHash = Hash_String (BlockHash lib header);
               computedMerkleRoot = computeMerkleRoot (DoubleHashH lib) txHashes;
               merkleRootValid = (computedMerkleRoot = hdr_MerkleRoot header)
           in if \<not> merkleRootValid then Inr (error_BlockOutput blockHash ''INVALID_MERKLE_ROOT'')
              else
                (case parseUndoFile lib revReader transactions of
                   Inl err \<Rightarrow>
                     if is_panic err then Inl err
                     else Inr (error_BlockOutput blockHash ''INVALID_UNDO_DATA'')
                 | Inr prevouts \<Rightarrow> finish_block lib header txCount transactions prevouts)))"

text \<open>\<open>ParseBlock\<close> on the contents of the three files (all of them readable): both
  data files are decoded with the key and the first block is analyzed, the undo reader
  starting at offset 0.\<close>

definition ParseBlock ::
  "library \<Rightarrow> byte list \<Rightarrow> byte list \<Rightarrow> byte list \<Rightarrow> go_error + BlockOutput list" where
  "ParseBlock lib blkFile revFile xorKey =
     (let blkData = XORDecode blkFile xorKey;
          revData = XORDecode revFile xorKey
      in case parseOneBlock lib blkData \<lparr> rs_data = revData, rs_offset = 0 \<rparr> of
           Inl err \<Rightarrow>
             if err = EOF \<or> err = ErrUnexpectedEOF
             then Inl (Errorf ''block file is empty or truncated'' None)
             else Inl err
         | Inr block \<Rightarrow> Inr [block])"

section \<open>A sample block\<close>

text \<open>
  The first block of the main chain, as it lies in a block file, for evaluating the
  analyzer: its header, its only transaction (the coinbase) in serialized and in parsed
  form, and a variant of the header whose Merkle root has its first byte changed.
\<close>

definition genesis_header :: "byte list" where
  "genesis_header = [
     0x01, 0x00, 0x00, 0x00, 0x00, 0x00, 0x00, 0x00, 0x00, 0x00, 0x00, 0x00,
     0x00, 0x00, 0x00, 0x00, 0x00, 0x00, 0x00, 0x00, 0x00, 0x00, 0x00, 0x00,
     0x00, 0x00, 0x00, 0x00, 0x00, 0x00, 0x00, 0x00, 0x00, 0x00, 0x00, 0x00,
     0x3b, 0xa3, 0xed, 0xfd, 0x7a, 0x7b, 0x12, 0xb2, 0x7a, 0xc7, 0x2c, 0x3e,
     0x67, 0x76, 0x8f, 0x61, 0x7f, 0xc8, 0x1b, 0xc3, 0x88, 0x8a, 0x51, 0x32,
     0x3a, 0x9f, 0xb8, 0xaa, 0x4b, 0x1e, 0x5e, 0x4a, 0x29, 0xab, 0x5f, 0x49,
     0xff, 0xff, 0x00, 0x1d, 0x1d, 0xac, 0x2b, 0x7c]"

definition genesis_coinbase_bytes :: "byte list" where
  "genesis_coinbase_bytes = [
     0x01, 0x00, 0x00, 0x00, 0x01, 0x00, 0x00, 0x00, 0x00, 0x00, 0x00, 0x00,
     0x00, 0x00, 0x00, 0x00, 0x00, 0x00, 0x00, 0x00, 0x00, 0x00, 0x00, 0x00,
     0x00, 0x00, 0x00, 0x00, 0x00, 0x00, 0x00, 0x00, 0x00, 0x00, 0x00, 0x00,
     0x00, 0xff, 0xff, 0xff, 0xff, 0x4d, 0x04, 0xff, 0xff, 0x00, 0x1d, 0x01,
     0x04, 0x45, 0x54, 0x68, 0x65, 0x20, 0x54, 0x69, 0x6d, 0x65, 0x73, 0x20,
     0x30, 0x33, 0x2f, 0x4a, 0x61, 0x6e, 0x2f, 0x32, 0x30, 0x30, 0x39, 0x20,
     0x43, 0x68, 0x61, 0x6e, 0x63, 0x65, 0x6c, 0x6c, 0x6f, 0x72, 0x20, 0x6f,
     0x6e, 0x20, 0x62, 0x72, 0x69, 0x6e, 0x6b, 0x20, 0x6f, 0x66, 0x20, 0x73,
     0x65, 0x63, 0x6f, 0x6e, 0x64, 0x20, 0x62, 0x61, 0x69, 0x6c, 0x6f, 0x75,
     0x74, 0x20, 0x66, 0x6f, 0x72, 0x20, 0x62, 0x61, 0x6e, 0x6b, 0x73, 0xff,
     0xff, 0xff, 0xff, 0x01, 0x00, 0xf2, 0x05, 0x2a, 0x01, 0x00, 0x00, 0x00,
     0x43, 0x41, 0x04, 0x67, 0x8a, 0xfd, 0xb0, 0xfe, 0x55, 0x48, 0x27, 0x19,
     0x67, 0xf1, 0xa6, 0x71, 0x30, 0xb7, 0x10, 0x5c, 0xd6, 0xa8, 0x28, 0xe0,
     0x39, 0x09, 0xa6, 0x79, 0x62, 0xe0, 0xea, 0x1f, 0x61, 0xde, 0xb6, 0x49,
     0xf6, 0xbc, 0x3f, 0x4c, 0xef, 0x38, 0xc4, 0xf3, 0x55, 0x04, 0xe5, 0x1e,
     0xc1, 0x12, 0xde, 0x5c, 0x38, 0x4d, 0xf7, 0xba, 0x0b, 0x8d, 0x57, 0x8a,
     0x4c, 0x70, 0x2b, 0x6b, 0xf1, 0x1d, 0x5f, 0xac, 0x00, 0x00, 0x00, 0x00]"

definition genesis_coinbase_script :: "byte list" where
  "genesis_coinbase_script = [
     0x04, 0xff, 0xff, 0x00, 0x1d, 0x01, 0x04, 0x45, 0x54, 0x68, 0x65, 0x20,
     0x54, 0x69, 0x6d, 0x65, 0x73, 0x20, 0x30, 0x33, 0x2f, 0x4a, 0x61, 0x6e,
     0x2f, 0x32, 0x30, 0x30, 0x39, 0x20, 0x43, 0x68, 0x61, 0x6e, 0x63, 0x65,
     0x6c, 0x6c, 0x6f, 0x72, 0x20, 0x6f, 0x6e, 0x20, 0x62, 0x72, 0x69, 0x6e,
     0x6b, 0x20, 0x6f, 0x66, 0x20, 0x73, 0x65, 0x63, 0x6f, 0x6e, 0x64, 0x20,
     0x62, 0x61, 0x69, 0x6c, 0x6f, 0x75, 0x74, 0x20, 0x66, 0x6f, 0x72, 0x20,
     0x62, 0x61, 0x6e, 0x6b, 0x73]"

definition genesis_output_script :: "byte list" where
  "genesis_output_script = [
     0x41, 0x04, 0x67, 0x8a, 0xfd, 0xb0, 0xfe, 0x55, 0x48, 0x27, 0x19, 0x67,
     0xf1, 0xa6, 0x71, 0x30, 0xb7, 0x10, 0x5c, 0xd6, 0xa8, 0x28, 0xe0, 0x39,
     0x09, 0xa6, 0x79, 0x62, 0xe0, 0xea, 0x1f, 0x61, 0xde, 0xb6, 0x49, 0xf6,
     0xbc, 0x3f, 0x4c, 0xef, 0x38, 0xc4, 0xf3, 0x55, 0x04, 0xe5, 0x1e, 0xc1,
     0x12, 0xde, 0x5c, 0x38, 0x4d, 0xf7, 0xba, 0x0b, 0x8d, 0x57, 0x8a, 0x4c,
     0x70, 0x2b, 0x6b, 0xf1, 0x1d, 0x5f, 0xac]"

definition genesis_coinbase :: wire_MsgTx where
  "genesis_coinbase =
     \<lparr> Version = 1,
       TxIn = [\<lparr> PreviousOutPoint = \<lparr> Hash = replicate 32 0, Index = 0xffffffff \<rparr>,
                 SignatureScript = genesis_coinbase_script,
                 Witness = [],
                 Sequence = 0xffffffff \<rparr>],
       TxOut = [\<lparr> Value = 5000000000, PkScript = genesis_output_script \<rparr>],
       LockTime = 0 \<rparr>"

definition altered_header :: "byte list" where
  "altered_header = genesis_header[36 := 0x3c]"

definition block_file :: "byte list \<Rightarrow> byte list" where
  "block_file header =
     [0xf9, 0xbe, 0xb4, 0xd9] @ [0x1d, 0x01, 0x00, 0x00] @ header @ [0x01] @ genesis_coinbase_bytes"

text \<open>
  The library on this block: the values that \<open>btcd\<close>, \<open>btcutil\<close> and the float
  arithmetic produce on the sample (the double SHA-256 of the two headers and of the
  coinbase, the serialization of the coinbase and its size of 204 bytes, the Base58Check
  addresses of the public-key hash of the coinbase output key, the fee rate of the
  coinbase as the \<open>float64\<close> nearest to -24509803.92, the Merkle root of block 170,
  the uncompressed form of the key of block 9, the allocation limit of 64-bit Linux),
  and a failure or a zero elsewhere.
\<close>

definition genesis_txid :: "byte list" where
  "genesis_txid = [
     0x3b, 0xa3, 0xed, 0xfd, 0x7a, 0x7b, 0x12, 0xb2, 0x7a, 0xc7, 0x2c, 0x3e,
     0x67, 0x76, 0x8f, 0x61, 0x7f, 0xc8, 0x1b, 0xc3, 0x88, 0x8a, 0x51, 0x32,
     0x3a, 0x9f, 0xb8, 0xaa, 0x4b, 0x1e, 0x5e, 0x4a]"

definition genesis_hash :: "byte list" where
  "genesis_hash = [
     0x6f, 0xe2, 0x8c, 0x0a, 0xb6, 0xf1, 0xb3, 0x72, 0xc1, 0xa6, 0xa2, 0x46,
     0xae, 0x63, 0xf7, 0x4f, 0x93, 0x1e, 0x83, 0x65, 0xe1, 0x5a, 0x08, 0x9c,
     0x68, 0xd6, 0x19, 0x00, 0x00, 0x00, 0x00, 0x00]"

definition altered_hash :: "byte list" where
  "altered_hash = [
     0x0b, 0x10, 0x1b, 0xef, 0xba, 0xdc, 0xeb, 0x9c, 0x9a, 0xa4, 0x5e, 0x7b,
     0x82, 0x4c, 0x26, 0xcb, 0xb6, 0x86, 0x57, 0xd0, 0x7e, 0xa5, 0x94, 0x97,
     0x59, 0xa1, 0x9a, 0x2d, 0xef, 0x43, 0x16, 0xb7]"

definition genesis_key_hash :: "byte list" where
  "genesis_key_hash = [
     0x62, 0xe9, 0x07, 0xb1, 0x5c, 0xbf, 0x27, 0xd5, 0x42, 0x53, 0x99, 0xeb,
     0xf6, 0xf0, 0xfb, 0x50, 0xeb, 0xb8, 0x8f, 0x18]"

definition sample_NewAddress :: address_encoder where
  "sample_NewAddress kind payload params =
     (if kind = AddressPubKeyHash \<and> payload = genesis_key_hash
      then Some (if params = MainNetParams then ''1A1zP1eP5QGefi2DMPTfTL5SLmv7DivfNa''
                 else ''mpXwg4jMtRhuSpVq4xS3HFHmCmWp9NyGKt'')
      else None)"

text \<open>The hashes of the two transactions of block 170 of the main chain, and the
  Merkle root of its header: the double SHA-256 of their concatenation.\<close>

definition block170_txid_0 :: "byte list" where
  "block170_txid_0 = [
     0x82, 0x50, 0x1c, 0x11, 0x78, 0xfa, 0x0b, 0x22, 0x2c, 0x1f, 0x3d, 0x47,
     0x4e, 0xc7, 0x26, 0xb8, 0x32, 0x01, 0x3f, 0x0a, 0x53, 0x2b, 0x44, 0xbb,
     0x62, 0x0c, 0xce, 0x86, 0x24, 0xa5, 0xfe, 0xb1]"

definition block170_txid_1 :: "byte list" where
  "block170_txid_1 = [
     0x16, 0x9e, 0x1e, 0x83, 0xe9, 0x30, 0x85, 0x33, 0x91, 0xbc, 0x6f, 0x35,
     0xf6, 0x05, 0xc6, 0x75, 0x4c, 0xfe, 0xad, 0x57, 0xcf, 0x83, 0x87, 0x63,
     0x9d, 0x3b, 0x40, 0x96, 0xc5, 0x4f, 0x18, 0xf4]"

definition block170_merkle_root :: "byte list" where
  "block170_merkle_root = [
     0xff, 0x10, 0x4c, 0xcb, 0x05, 0x42, 0x1a, 0xb9, 0x3e, 0x63, 0xf8, 0xc3,
     0xce, 0x5c, 0x2c, 0x2e, 0x9d, 0xbb, 0x37, 0xde, 0x27, 0x64, 0xb3, 0xa3,
     0x17, 0x5c, 0x81, 0x66, 0x56, 0x2c, 0xac, 0x7d]"

text \<open>The public key of the coinbase output of block 9, which block 170 spends: its two
  coordinates on the curve (the second is odd).\<close>

definition block9_key_x :: "byte list" where
  "block9_key_x = [
     0x11, 0xdb, 0x93, 0xe1, 0xdc, 0xdb, 0x8a, 0x01, 0x6b, 0x49, 0x84, 0x0f,
     0x8c, 0x53, 0xbc, 0x1e, 0xb6, 0x8a, 0x38, 0x2e, 0x97, 0xb1, 0x48, 0x2e,
     0xca, 0xd7, 0xb1, 0x48, 0xa6, 0x90, 0x9a, 0x5c]"

definition block9_key_y :: "byte list" where
  "block9_key_y = [
     0xb2, 0xe0, 0xea, 0xdd, 0xfb, 0x84, 0xcc, 0xf9, 0x74, 0x44, 0x64, 0xf8,
     0x2e, 0x16, 0x0b, 0xfa, 0x9b, 0x8b, 0x64, 0xf9, 0xd4, 0xc0, 0x3f, 0x99,
     0x9b, 0x86, 0x43, 0xf6, 0x56, 0xb4, 0x12, 0xa3]"

definition sample_library :: library where
  "sample_library =
     \<lparr> Deserialize = (\<lambda>r. if take 204 r = genesis_coinbase_bytes
                            then Inr (genesis_coinbase, drop 204 r)
                            else Inl ErrUnexpectedEOF),
       Serialize = (\<lambda>tx. genesis_coinbase_bytes),
       TxHash = (\<lambda>tx. genesis_txid),
       WitnessHash = (\<lambda>tx. genesis_txid),
       SerializeSize = (\<lambda>tx. 204),
       SerializeSizeStripped = (\<lambda>tx. 204),
       DoubleHashH = (\<lambda>bs. if bs = genesis_header then genesis_hash
                            else if bs = altered_header then altered_hash
                            else if bs = block170_txid_0 @ block170_txid_1
                            then block170_merkle_root
                            else replicate 32 0),
       NewAddress = sample_NewAddress,
       ParsePubKey = (\<lambda>key. if key = 0x03 # block9_key_x
                              then Some (0x04 # block9_key_x @ block9_key_y)
                              else None),
       maxAlloc = 0x1000000000000,
       fee_rate = (\<lambda>feeSats vbytes. if feeSats = - 5000000000 \<and> vbytes = 204
                                      then - 1644825097933947 / 67108864 else 0) \<rparr>"

text \<open>The coinbase as a fixture of the transaction analyzer, and its analysis.\<close>

definition genesis_fixture :: Fixture where
  "genesis_fixture =
     \<lparr> Network = ''mainnet'', RawTx = EncodeToString genesis_coinbase_bytes, Prevouts = [] \<rparr>"

definition genesis_transaction :: TransactionOutput where
  "genesis_transaction =
     \<lparr> tx_OK = True, tx_Network = ''mainnet'', tx_Segwit = False,
       tx_Txid = ''4a5e1e4baab89f3a32518a88c31bc87f618f76673e2cc77ab2127b7afdeda33b'',
       tx_Wtxid = None, tx_Version = 1, tx_Locktime = 0,
       tx_SizeBytes = 204, tx_Weight = 816, tx_Vbytes = 204,
       tx_FeeSats = - 5000000000,
       tx_FeeRateSatVb = - (1644825097933947 / 67108864),
       tx_TotalInputSats = 0, tx_TotalOutputSats = 5000000000,
       tx_RbfSignaling = False, tx_LocktimeType = ''none'',
       tx_VinCount = 1, tx_VoutCount = 1,
       tx_VoutScriptTypes = [''unknown''],
       tx_Vout =
         [\<lparr> out_N = 0, out_ValueSats = 5000000000,
             out_ScriptPubkeyHex = EncodeToString genesis_output_script,
             out_ScriptType = ''unknown'', out_Address = None \<rparr>],
       tx_Warnings = [''UNKNOWN_OUTPUT_SCRIPT''] \<rparr>"

text \<open>
  Undo records in the framing of a rev file: one with two (empty) transaction undos, one
  with none, as written for a block whose only transaction is the coinbase, and the
  record of block 170, whose second transaction spends the 50 BTC coinbase output of
  block 9 (height code \<open>9 * 2 + 1\<close>, the version byte, the compressed amount 50, script
  form 5 and the first coordinate of the key). The 32 bytes after each payload stand for
  the record hash.
\<close>

definition undo_record_two :: "byte list" where
  "undo_record_two =
     [0xf9, 0xbe, 0xb4, 0xd9, 0x03, 0x00, 0x00, 0x00] @ [0x02, 0x00, 0x00] @ replicate 32 0xaa"

definition undo_record_none :: "byte list" where
  "undo_record_none =
     [0xf9, 0xbe, 0xb4, 0xd9, 0x01, 0x00, 0x00, 0x00] @ [0x00] @ replicate 32 0xbb"

definition undo_header_block170 :: "byte list" where
  "undo_header_block170 = [0xf9, 0xbe, 0xb4, 0xd9, 0x26, 0x00, 0x00, 0x00]"

definition undo_inputs_block170 :: "byte list" where
  "undo_inputs_block170 = [0x01, 0x13, 0x00, 0x32, 0x05] @ block9_key_x"

definition undo_payload_block170 :: "byte list" where
  "undo_payload_block170 = 0x01 # undo_inputs_block170"

definition undo_record_block170 :: "byte list" where
  "undo_record_block170 =
     undo_header_block170 @ undo_payload_block170 @ replicate 32 0xcc"

definition block170_prevouts :: "PrevoutInput list list" where
  "block170_prevouts =
     [[\<lparr> pi_Txid = [], pi_Vout = 0, pi_ValueSats = 5000000000,
         pi_ScriptPubkeyHex =
           EncodeToString ([0x41, 0x04] @ block9_key_x @ block9_key_y @ [0xac]) \<rparr>]]"

section \<open>The formats as the specification words them\<close>

text \<open>
  A record of a rev file that does not match the wanted count: 8 bytes of magic and
  little-endian size, a payload of that size whose first CompactSize is another count,
  and 32 bytes of hash.
\<close>

definition undo_record_mismatch :: "u64 \<Rightarrow> byte list \<Rightarrow> bool" where
  "undo_record_mismatch wantCount record \<longleftrightarrow>
     40 \<le> length record \<and>
     length record = 8 + unat (le_uint (slice record 4 8) :: u32) + 32 \<and>
     (case ReadCompactSize (slice record 8 (length record - 32)) of
        Inl err \<Rightarrow> False
      | Inr (txUndoCount, r) \<Rightarrow> txUndoCount \<noteq> wantCount)"

text \<open>The value of a little-endian byte sequence, as a natural number.\<close>

fun le_nat :: "byte list \<Rightarrow> nat" where
  "le_nat [] = 0"
| "le_nat (b # bs) = unat b + 256 * le_nat bs"

section \<open>Properties of the byte codec\<close>

subsection \<open>Amount decompression\<close>

lemma mul10_times_power: "mul10_times k n = n * 10 ^ k"
  by (induction k arbitrary: n) (simp_all add: mult.assoc)

text \<open>
  What the closed form means on integers: the value of the formula of the
  specification, reduced modulo \<open>2^64\<close>.
\<close>

lemma uint_pow10: "uint (10 ^ k :: u64) = 10 ^ k mod 2 ^ 64"
proof (induction k)
  case 0 show ?case by simp
next
  case (Suc k)
  have "uint (10 ^ Suc k :: u64) = (10 * uint (10 ^ k :: u64)) mod 2 ^ 64"
    by (simp add: uint_word_ariths)
  also have "\<dots> = (10 * 10 ^ k) mod 2 ^ 64"
    unfolding Suc.IH by (simp add: mod_mult_right_eq)
  finally show ?case by simp
qed

lemma uint_pred:
  fixes x :: u64
  assumes "x \<noteq> 0"
  shows "uint (x - 1) = uint x - 1"
proof -
  have "uint x \<noteq> 0" using assms by (simp add: uint_0_iff)
  moreover have "0 \<le> uint x" by simp
  ultimately have lo: "0 \<le> uint x - 1" by arith
  have "uint x < 2 ^ 64" using uint_lt2p [of x] by simp
  then have hi: "uint x - 1 < 2 ^ 64" by arith
  have "uint (x - 1) = (uint x - 1) mod 2 ^ 64" by (simp add: uint_word_ariths)
  also have "\<dots> = uint x - 1" using lo hi by (rule mod_pos_pos_trivial)
  finally show ?thesis .
qed

lemma DecompressAmount_spec_uint:
  "uint (DecompressAmount_spec x) =
     (if x = 0 then 0
      else
        let y = uint x - 1; e = y mod 10; q = y div 10
        in if e < 9 then (((q div 9) * 10 + q mod 9 + 1) * 10 ^ nat e) mod 2 ^ 64
           else ((q + 1) * 10 ^ 9) mod 2 ^ 64)"
proof (cases "x = 0")
  case True
  then show ?thesis by (simp add: DecompressAmount_spec_def)
next
  case False
  define y where "y = x - 1"
  define Y where "Y = uint x - 1"
  have y: "uint y = Y" unfolding y_def Y_def using False by (rule uint_pred)
  have e: "uint (y mod 10) = Y mod 10"
    by (simp add: uint_mod y)
  have q: "uint (y div 10) = Y div 10"
    by (simp add: uint_div y)
  have q9: "uint (y div 10 div 9) = Y div 10 div 9"
    by (simp add: uint_div y)
  have m9: "uint (y div 10 mod 9) = Y div 10 mod 9"
    by (simp add: uint_mod uint_div y)
  have lt: "(y mod 10 < 9) = (Y mod 10 < 9)"
    by (simp add: word_less_def e)
  have ne: "unat (y mod 10) = nat (Y mod 10)"
    by (simp add: e [symmetric])
  have A: "uint ((y div 10 div 9 * 10 + y div 10 mod 9 + 1) * 10 ^ k) =
        ((Y div 10 div 9 * 10 + Y div 10 mod 9 + 1) * 10 ^ k) mod 2 ^ 64" for k
    unfolding uint_word_ariths q9 m9 uint_pow10 by (simp add: mod_simps)
  have B: "uint ((y div 10 + 1) * 10 ^ 9) = ((Y div 10 + 1) * 10 ^ 9) mod 2 ^ 64"
    unfolding uint_word_ariths q uint_pow10 by (simp add: mod_simps)
  show ?thesis
    using False A B
    by (simp add: DecompressAmount_spec_def Let_def lt ne flip: y_def Y_def)
qed

text \<open>
  C2. For every 64-bit compressed amount \<open>x\<close>, \<open>DecompressAmount\<close> returns 0 when
  \<open>x = 0\<close> and otherwise the value of the Bitcoin Core algorithm: with \<open>y = x - 1\<close>,
  \<open>e = y mod 10\<close> and \<open>q = y div 10\<close>, the result is
  \<open>((q div 9) * 10 + q mod 9 + 1) * 10^e\<close> when \<open>e < 9\<close> and \<open>(q + 1) * 10^9\<close> when
  \<open>e = 9\<close>, the arithmetic being that of 64-bit unsigned integers as in Bitcoin Core:
  read as an integer, the result is the value of the formula modulo \<open>2^64\<close>.
\<close>

lemma DecompressAmount_eq_spec: "DecompressAmount x = DecompressAmount_spec x"
  by (simp add: DecompressAmount_def DecompressAmount_spec_def Let_def mul10_times_power
      add.assoc)

theorem DecompressAmount_exact:
  "DecompressAmount x = DecompressAmount_spec x \<and>
   uint (DecompressAmount x) =
     (if x = 0 then 0
      else
        let y = uint x - 1; e = y mod 10; q = y div 10
        in if e < 9 then (((q div 9) * 10 + q mod 9 + 1) * 10 ^ nat e) mod 2 ^ 64
           else ((q + 1) * 10 ^ 9) mod 2 ^ 64)"
  unfolding DecompressAmount_eq_spec
  using DecompressAmount_spec_uint [of x] by simp

subsection \<open>The two variable-length integers\<close>

lemma ReadBitcoinVarInt_loop_fails:
  "(\<exists>e. ReadBitcoinVarInt_loop n r = Inl e) = (\<forall>b\<in>set r. b AND 0x80 \<noteq> 0)"
  by (induction r arbitrary: n) (simp_all add: Let_def)

lemma ReadBitcoinVarInt_loop_EOF:
  "ReadBitcoinVarInt_loop n r = Inl e \<Longrightarrow> e = EOF"
  by (induction r arbitrary: n) (simp_all add: Let_def split: if_splits)

lemma ReadBitcoinVarInt_loop_decodes:
  "\<forall>c\<in>set cs. c AND 0x80 \<noteq> 0 \<Longrightarrow> b AND 0x80 = 0 \<Longrightarrow>
   ReadBitcoinVarInt_loop n (cs @ b # rest) =
     Inr (push_bit 7 (foldl (\<lambda>n c. (push_bit 7 n OR ucast (c AND 0x7f)) + 1) n cs)
            OR ucast (b AND 0x7f), rest)"
  by (induction cs arbitrary: n) (simp_all add: Let_def)

subsubsection \<open>The CompactSize prefix scheme\<close>

lemma ucast_or_push_bit_8:
  "(ucast (b :: byte) :: 'a::len word) OR push_bit 8 x = ucast b + 256 * x"
proof -
  have "(ucast b :: 'a word) AND push_bit 8 x = 0"
  proof (rule bit_eqI)
    fix n
    have "bit b n \<Longrightarrow> n < 8" using bit_imp_le_length [of b n] by simp
    then show "bit ((ucast b :: 'a word) AND push_bit 8 x) n \<longleftrightarrow> bit (0 :: 'a word) n"
      by (auto simp: bit_simps)
  qed
  then have "(ucast b :: 'a word) + push_bit 8 x = ucast b OR push_bit 8 x"
    by (rule disjunctive_add_eq_or)
  then show ?thesis by (simp add: push_bit_eq_mult mult.commute)
qed

lemma le_uint_le_nat: "(le_uint v :: 'a::len word) = of_nat (le_nat v)"
proof (induction v)
  case Nil
  show ?case by simp
next
  case (Cons b bs)
  have "(le_uint (b # bs) :: 'a word) = ucast b + 256 * le_uint bs"
    by (simp only: le_uint.simps ucast_or_push_bit_8)
  also have "\<dots> = ucast b + 256 * of_nat (le_nat bs)"
    by (simp only: Cons.IH)
  also have "(ucast b :: 'a word) = of_nat (unat b)"
    by simp
  finally show ?case by simp
qed

lemma le_nat_bound: "le_nat v < 256 ^ length v"
proof (induction v)
  case Nil
  show ?case by simp
next
  case (Cons b bs)
  have "unat b < 256" using unsigned_less [of b, where ?'a = nat] by simp
  with Cons.IH show ?case by simp
qed

lemma ucast_le_uint_16:
  "length v = 2 \<Longrightarrow> (ucast (le_uint v :: 16 word) :: u64) = of_nat (le_nat v)"
proof -
  assume "length v = 2"
  then have "le_nat v < 2 ^ 16" using le_nat_bound [of v] by simp
  then show ?thesis
    by (simp add: le_uint_le_nat unsigned_of_nat take_bit_nat_eq_self)
qed

lemma ucast_le_uint_32:
  "length v = 4 \<Longrightarrow> (ucast (le_uint v :: 32 word) :: u64) = of_nat (le_nat v)"
proof -
  assume "length v = 4"
  then have "le_nat v < 2 ^ 32" using le_nat_bound [of v] by simp
  then show ?thesis
    by (simp add: le_uint_le_nat unsigned_of_nat take_bit_nat_eq_self)
qed

lemma ReadFull_exact:
  "length a = n \<Longrightarrow> ReadFull n (a @ r) = Inr (a, r)"
  by (cases "n = 0") (auto simp: ReadFull_def)

lemma ReadFull_short:
  "length a < n \<Longrightarrow> \<exists>e. ReadFull n a = Inl e"
  by (auto simp: ReadFull_def)

lemma ReadCompactSize_Cons:
  "ReadCompactSize (b # r) =
     (if b = 0xfd then
        (case ReadFull 2 r of
           Inl e \<Rightarrow> Inl e
         | Inr (v, r2) \<Rightarrow> Inr (ucast (le_uint v :: 16 word), r2))
      else if b = 0xfe then
        (case ReadFull 4 r of
           Inl e \<Rightarrow> Inl e
         | Inr (v, r2) \<Rightarrow> Inr (ucast (le_uint v :: 32 word), r2))
      else if b = 0xff then
        (case ReadFull 8 r of Inl e \<Rightarrow> Inl e | Inr (v, r2) \<Rightarrow> Inr (le_uint v, r2))
      else Inr (ucast b, r))"
  by (simp add: ReadCompactSize_def ReadFull_def)

lemma ReadCompactSize_scheme:
  "ReadCompactSize [] = Inl EOF"
  "b < 0xfd \<Longrightarrow> ReadCompactSize (b # r) = Inr (ucast b, r)"
  "length v = 2 \<Longrightarrow> ReadCompactSize (0xfd # v @ r) = Inr (of_nat (le_nat v), r)"
  "length v = 4 \<Longrightarrow> ReadCompactSize (0xfe # v @ r) = Inr (of_nat (le_nat v), r)"
  "length v = 8 \<Longrightarrow> ReadCompactSize (0xff # v @ r) = Inr (of_nat (le_nat v), r)"
  "length v < 2 \<Longrightarrow> \<exists>e. ReadCompactSize (0xfd # v) = Inl e"
  "length v < 4 \<Longrightarrow> \<exists>e. ReadCompactSize (0xfe # v) = Inl e"
  "length v < 8 \<Longrightarrow> \<exists>e. ReadCompactSize (0xff # v) = Inl e"
proof -
  show "ReadCompactSize [] = Inl EOF" by (simp add: ReadCompactSize_def ReadFull_def)
  show "ReadCompactSize (b # r) = Inr (ucast b, r)" if "b < 0xfd"
  proof -
    from that have "b \<noteq> 0xfd" "b \<noteq> 0xfe" "b \<noteq> 0xff" by auto
    then show ?thesis by (simp add: ReadCompactSize_Cons)
  qed
  show "ReadCompactSize (0xfd # v @ r) = Inr (of_nat (le_nat v), r)" if "length v = 2"
    using that by (simp add: ReadCompactSize_Cons ReadFull_exact ucast_le_uint_16)
  show "ReadCompactSize (0xfe # v @ r) = Inr (of_nat (le_nat v), r)" if "length v = 4"
    using that by (simp add: ReadCompactSize_Cons ReadFull_exact ucast_le_uint_32)
  show "ReadCompactSize (0xff # v @ r) = Inr (of_nat (le_nat v), r)" if "length v = 8"
    using that by (simp add: ReadCompactSize_Cons ReadFull_exact le_uint_le_nat)
  show "\<exists>e. ReadCompactSize (0xfd # v) = Inl e" if "length v < 2"
    using ReadFull_short [OF that] by (auto simp: ReadCompactSize_Cons)
  show "\<exists>e. ReadCompactSize (0xfe # v) = Inl e" if "length v < 4"
    using ReadFull_short [OF that] by (auto simp: ReadCompactSize_Cons)
  show "\<exists>e. ReadCompactSize (0xff # v) = Inl e" if "length v < 8"
    using ReadFull_short [OF that] by (auto simp: ReadCompactSize_Cons)
qed

text \<open>
  C3. \<open>ReadBitcoinVarInt\<close> decodes the CVarInt of the undo format. On a stream that
  starts with bytes \<open>cs\<close> whose top bit is set, followed by a byte \<open>b\<close> whose top bit is
  clear, it returns the value built from \<open>n = 0\<close> by \<open>n = (n << 7) | (c & 0x7F)\<close> and
  \<open>n = n + 1\<close> for every byte of \<open>cs\<close> and \<open>n = (n << 7) | (b & 0x7F)\<close> for \<open>b\<close>, and
  leaves the rest of the stream. It fails exactly when the stream ends before a byte with
  a clear top bit. It is not the CompactSize decoder: on the bytes \<open>81 00\<close> it reads 256
  from two bytes, where \<open>ReadCompactSize\<close> reads 129 from one. \<open>ReadCompactSize\<close> follows
  the prefix scheme: a first byte below \<open>0xFD\<close> is the value; \<open>0xFD\<close>, \<open>0xFE\<close> and
  \<open>0xFF\<close> are followed by the value in 2, 4 and 8 little-endian bytes; it fails on an
  empty stream and when fewer bytes than the prefix announces are left.
\<close>

theorem ReadBitcoinVarInt_decodes:
  "((\<forall>c\<in>set cs. c AND 0x80 \<noteq> 0) \<and> b AND 0x80 = 0 \<longrightarrow>
      ReadBitcoinVarInt (cs @ b # rest) =
        Inr (push_bit 7 (foldl (\<lambda>n c. (push_bit 7 n OR ucast (c AND 0x7f)) + 1) 0 cs)
               OR ucast (b AND 0x7f), rest)) \<and>
   ((\<exists>e. ReadBitcoinVarInt r = Inl e) = (\<forall>c\<in>set r. c AND 0x80 \<noteq> 0)) \<and>
   ReadBitcoinVarInt [0x81, 0x00] = Inr (256, []) \<and>
   ReadCompactSize [0x81, 0x00] = Inr (129, [0x00]) \<and>
   ReadCompactSize [] = Inl EOF \<and>
   (p < 0xfd \<longrightarrow> ReadCompactSize (p # s) = Inr (ucast p, s)) \<and>
   (length v2 = 2 \<longrightarrow> ReadCompactSize (0xfd # v2 @ s) = Inr (of_nat (le_nat v2), s)) \<and>
   (length v4 = 4 \<longrightarrow> ReadCompactSize (0xfe # v4 @ s) = Inr (of_nat (le_nat v4), s)) \<and>
   (length v8 = 8 \<longrightarrow> ReadCompactSize (0xff # v8 @ s) = Inr (of_nat (le_nat v8), s)) \<and>
   (length t2 < 2 \<longrightarrow> (\<exists>e. ReadCompactSize (0xfd # t2) = Inl e)) \<and>
   (length t4 < 4 \<longrightarrow> (\<exists>e. ReadCompactSize (0xfe # t4) = Inl e)) \<and>
   (length t8 < 8 \<longrightarrow> (\<exists>e. ReadCompactSize (0xff # t8) = Inl e))"
proof -
  have var: "((\<forall>c\<in>set cs. c AND 0x80 \<noteq> 0) \<and> b AND 0x80 = 0 \<longrightarrow>
      ReadBitcoinVarInt (cs @ b # rest) =
        Inr (push_bit 7 (foldl (\<lambda>n c. (push_bit 7 n OR ucast (c AND 0x7f)) + 1) 0 cs)
               OR ucast (b AND 0x7f), rest)) \<and>
   ((\<exists>e. ReadBitcoinVarInt r = Inl e) = (\<forall>c\<in>set r. c AND 0x80 \<noteq> 0)) \<and>
   ReadBitcoinVarInt [0x81, 0x00] = Inr (256, []) \<and>
   ReadCompactSize [0x81, 0x00] = Inr (129, [0x00])"
    unfolding ReadBitcoinVarInt_def
    using ReadBitcoinVarInt_loop_decodes [of cs b 0 rest] ReadBitcoinVarInt_loop_fails [of 0 r]
    by (simp add: ReadCompactSize_def ReadFull_def)
  show ?thesis
    by (intro conjI impI var [THEN conjunct1] var [THEN conjunct2, THEN conjunct1]
        var [THEN conjunct2, THEN conjunct2, THEN conjunct1]
        var [THEN conjunct2, THEN conjunct2, THEN conjunct2]
        ReadCompactSize_scheme)
qed

theorem ReadBitcoinVarInt_decodes_witness:
  "(0x81 :: byte) AND 0x80 \<noteq> 0 \<and> (0xff :: byte) AND 0x80 \<noteq> 0 \<and>
   (0x05 :: byte) AND 0x80 = 0 \<and>
   ReadBitcoinVarInt [0x81, 0xff, 0x05, 0x07] = Inr (49157, [0x07]) \<and>
   (\<exists>e. ReadBitcoinVarInt [0x81, 0xff] = Inl e) \<and>
   (0x81 :: byte) < 0xfd \<and>
   ReadCompactSize [0x81, 0x07] = Inr (129, [0x07]) \<and>
   length [0x01, 0x02 :: byte] = 2 \<and>
   ReadCompactSize [0xfd, 0x01, 0x02, 0x07] = Inr (513, [0x07]) \<and>
   length [0x01, 0x00, 0x00, 0x01 :: byte] = 4 \<and>
   ReadCompactSize [0xfe, 0x01, 0x00, 0x00, 0x01, 0x07] = Inr (16777217, [0x07]) \<and>
   length [0x00, 0x00, 0x00, 0x00, 0x00, 0x00, 0x00, 0x01 :: byte] = 8 \<and>
   ReadCompactSize [0xff, 0x00, 0x00, 0x00, 0x00, 0x00, 0x00, 0x00, 0x01, 0x07] =
     Inr (72057594037927936, [0x07]) \<and>
   length [0x01 :: byte] < 2 \<and>
   (\<exists>e. ReadCompactSize [0xfd, 0x01] = Inl e) \<and>
   length ([] :: byte list) < 4 \<and>
   (\<exists>e. ReadCompactSize [0xfe] = Inl e) \<and>
   length [0x01, 0x02, 0x03 :: byte] < 8 \<and>
   (\<exists>e. ReadCompactSize [0xff, 0x01, 0x02, 0x03] = Inl e)"
  using ReadBitcoinVarInt_decodes [where cs = "[0x81, 0xff]" and b = "0x05" and rest = "[0x07]"
      and r = "[0x81, 0xff]" and p = "0x81" and s = "[0x07]" and ?v2.0 = "[0x01, 0x02]"
      and ?v4.0 = "[0x01, 0x00, 0x00, 0x01]"
      and ?v8.0 = "[0x00, 0x00, 0x00, 0x00, 0x00, 0x00, 0x00, 0x01]"
      and ?t2.0 = "[0x01]" and ?t4.0 = "[]" and ?t8.0 = "[0x01, 0x02, 0x03]"]
  by simp

subsection \<open>XOR decoding\<close>

lemma XORDecode_length: "length (XORDecode d k) = length d"
  by (simp add: XORDecode_def)

lemma XORDecode_nth:
  "i < length d \<Longrightarrow> XORDecode d k ! i =
     (if length k = 0 \<or> list_all (\<lambda>b. b = 0) k then d ! i else d ! i XOR k ! (i mod length k))"
  by (simp add: XORDecode_def)

lemma xor_twice: "(a XOR b) XOR b = a" for a b :: byte
  by (simp add: xor.assoc)

text \<open>
  C9. XOR decoding preserves the length and is an involution: for every data and every
  key, the empty and the all-zero keys among them,
  \<open>XORDecode (XORDecode data key) key = data\<close>.
\<close>

theorem XORDecode_involution:
  "XORDecode (XORDecode data key) key = data \<and> length (XORDecode data key) = length data"
proof
  show "XORDecode (XORDecode data key) key = data"
  proof (rule nth_equalityI)
    show "length (XORDecode (XORDecode data key) key) = length data"
      by (simp add: XORDecode_length)
  next
    fix i assume "i < length (XORDecode (XORDecode data key) key)"
    then have i: "i < length data" by (simp add: XORDecode_length)
    then show "XORDecode (XORDecode data key) key ! i = data ! i"
      by (simp add: XORDecode_nth XORDecode_length xor_twice)
  qed
next
  show "length (XORDecode data key) = length data" by (rule XORDecode_length)
qed

section \<open>Properties of the analyzer\<close>

subsection \<open>Output-script classification\<close>

lemma list1_nth: "length xs = 1 \<Longrightarrow> xs = [xs ! 0]"
  by (cases xs) simp_all

lemma list2_nth: "length xs = 2 \<Longrightarrow> xs = [xs ! 0, xs ! 1]"
  by (cases xs; cases "tl xs") auto

lemma list3_nth: "length xs = 3 \<Longrightarrow> xs = [xs ! 0, xs ! 1, xs ! 2]"
  by (cases xs; cases "tl xs"; cases "tl (tl xs)") auto

lemma take1_nth: "1 \<le> length s \<Longrightarrow> take 1 s = [s ! 0]"
  using list1_nth [of "take 1 s"] by simp

lemma take2_nth: "2 \<le> length s \<Longrightarrow> take 2 s = [s ! 0, s ! 1]"
  using list2_nth [of "take 2 s"] by simp

lemma take3_nth: "3 \<le> length s \<Longrightarrow> take 3 s = [s ! 0, s ! 1, s ! 2]"
  using list3_nth [of "take 3 s"] by simp

lemma drop_last1_nth: "length s = Suc n \<Longrightarrow> drop n s = [s ! n]"
  using list1_nth [of "drop n s"] by simp

lemma drop_last2_nth: "length s = Suc (Suc n) \<Longrightarrow> drop n s = [s ! n, s ! Suc n]"
  using list2_nth [of "drop n s"] by simp

lemma p2pkh_cond:
  "(length s = 25 \<and> s ! 0 = 0x76 \<and> s ! 1 = 0xa9 \<and> s ! 2 = 0x14 \<and> s ! 23 = 0x88 \<and> s ! 24 = 0xac)
     = is_p2pkh_template s"
proof (cases "length s = 25")
  case True
  then have "take 3 s = [s ! 0, s ! 1, s ! 2]" "drop 23 s = [s ! 23, s ! 24]"
    using take3_nth [of s] drop_last2_nth [of s 23] by simp_all
  then show ?thesis by (simp add: is_p2pkh_template_def)
next
  case False
  then show ?thesis by (simp add: is_p2pkh_template_def)
qed

lemma p2sh_cond:
  "(length s = 23 \<and> s ! 0 = 0xa9 \<and> s ! 1 = 0x14 \<and> s ! 22 = 0x87) = is_p2sh_template s"
proof (cases "length s = 23")
  case True
  then have "take 2 s = [s ! 0, s ! 1]" "drop 22 s = [s ! 22]"
    using take2_nth [of s] drop_last1_nth [of s 22] by simp_all
  then show ?thesis by (simp add: is_p2sh_template_def)
next
  case False
  then show ?thesis by (simp add: is_p2sh_template_def)
qed

lemma p2wpkh_cond:
  "(length s = 22 \<and> s ! 0 = 0x00 \<and> s ! 1 = 0x14) = is_p2wpkh_template s"
  using take2_nth [of s] by (cases "length s = 22") (simp_all add: is_p2wpkh_template_def)

lemma p2wsh_cond:
  "(length s = 34 \<and> s ! 0 = 0x00 \<and> s ! 1 = 0x20) = is_p2wsh_template s"
  using take2_nth [of s] by (cases "length s = 34") (simp_all add: is_p2wsh_template_def)

lemma p2tr_cond:
  "(length s = 34 \<and> s ! 0 = 0x51 \<and> s ! 1 = 0x20) = is_p2tr_template s"
  using take2_nth [of s] by (cases "length s = 34") (simp_all add: is_p2tr_template_def)

lemma op_return_cond: "(length s > 0 \<and> s ! 0 = 0x6a) = is_op_return_template s"
  using take1_nth [of s] by (cases s) (simp_all add: is_op_return_template_def)

lemma ClassifyOutputScript_templates:
  "ClassifyOutputScript s =
     (if is_p2pkh_template s then ''p2pkh''
      else if is_p2sh_template s then ''p2sh''
      else if is_p2wpkh_template s then ''p2wpkh''
      else if is_p2wsh_template s then ''p2wsh''
      else if is_p2tr_template s then ''p2tr''
      else if is_op_return_template s then ''op_return''
      else ''unknown'')"
proof (cases "s = []")
  case True
  then show ?thesis
    by (simp add: ClassifyOutputScript_def is_p2pkh_template_def is_p2sh_template_def
        is_p2wpkh_template_def is_p2wsh_template_def is_p2tr_template_def
        is_op_return_template_def)
next
  case False
  then have ne: "length s \<noteq> 0" by simp
  show ?thesis
    unfolding ClassifyOutputScript_def p2pkh_cond p2sh_cond p2wpkh_cond p2wsh_cond
      p2tr_cond op_return_cond
    using ne by simp
qed

lemma templates_exclusive:
  "is_p2pkh_template s \<Longrightarrow> \<not> is_p2sh_template s \<and> \<not> is_p2wpkh_template s \<and>
     \<not> is_p2wsh_template s \<and> \<not> is_p2tr_template s \<and> \<not> is_op_return_template s"
  "is_p2sh_template s \<Longrightarrow> \<not> is_p2wpkh_template s \<and>
     \<not> is_p2wsh_template s \<and> \<not> is_p2tr_template s \<and> \<not> is_op_return_template s"
  "is_p2wpkh_template s \<Longrightarrow>
     \<not> is_p2wsh_template s \<and> \<not> is_p2tr_template s \<and> \<not> is_op_return_template s"
  "is_p2wsh_template s \<Longrightarrow> \<not> is_p2tr_template s \<and> \<not> is_op_return_template s"
  "is_p2tr_template s \<Longrightarrow> \<not> is_op_return_template s"
  unfolding p2pkh_cond [symmetric] p2sh_cond [symmetric] p2wpkh_cond [symmetric]
    p2wsh_cond [symmetric] p2tr_cond [symmetric] op_return_cond [symmetric]
  by simp_all

lemma ClassifyOutputScript_length:
  "ClassifyOutputScript s = ''p2pkh'' \<Longrightarrow> length s = 25"
  "ClassifyOutputScript s = ''p2sh'' \<Longrightarrow> length s = 23"
  "ClassifyOutputScript s = ''p2wpkh'' \<Longrightarrow> length s = 22"
  "ClassifyOutputScript s = ''p2wsh'' \<Longrightarrow> length s = 34"
  "ClassifyOutputScript s = ''p2tr'' \<Longrightarrow> length s = 34"
  using templates_exclusive [of s]
  by (simp_all add: ClassifyOutputScript_templates is_p2pkh_template_def is_p2sh_template_def
      is_p2wpkh_template_def is_p2wsh_template_def is_p2tr_template_def split: if_splits)

text \<open>
  C6. For every byte sequence, output-script classification returns exactly the templates
  of the specification: \<open>p2pkh\<close> iff 25 bytes \<open>76 a9 14 <20> 88 ac\<close>; \<open>p2sh\<close> iff 23 bytes
  \<open>a9 14 <20> 87\<close>; \<open>p2wpkh\<close> iff 22 bytes starting \<open>00 14\<close>; \<open>p2wsh\<close> iff 34 bytes
  starting \<open>00 20\<close>; \<open>p2tr\<close> iff 34 bytes starting \<open>51 20\<close>; \<open>op_return\<close> iff the first
  byte is \<open>6a\<close> (no earlier template can match such a script), whatever the length; and
  \<open>unknown\<close> iff no template matches.
\<close>

theorem ClassifyOutputScript_exact:
  "(ClassifyOutputScript s = ''p2pkh'') = is_p2pkh_template s \<and>
   (ClassifyOutputScript s = ''p2sh'') = is_p2sh_template s \<and>
   (ClassifyOutputScript s = ''p2wpkh'') = is_p2wpkh_template s \<and>
   (ClassifyOutputScript s = ''p2wsh'') = is_p2wsh_template s \<and>
   (ClassifyOutputScript s = ''p2tr'') = is_p2tr_template s \<and>
   (ClassifyOutputScript s = ''op_return'') =
     (is_op_return_template s \<and> \<not> is_p2pkh_template s \<and> \<not> is_p2sh_template s \<and>
      \<not> is_p2wpkh_template s \<and> \<not> is_p2wsh_template s \<and> \<not> is_p2tr_template s) \<and>
   (ClassifyOutputScript s = ''op_return'') = is_op_return_template s \<and>
   (ClassifyOutputScript s = ''unknown'') =
     (\<not> is_p2pkh_template s \<and> \<not> is_p2sh_template s \<and> \<not> is_p2wpkh_template s \<and>
      \<not> is_p2wsh_template s \<and> \<not> is_p2tr_template s \<and> \<not> is_op_return_template s)"
  using templates_exclusive [of s]
  by (simp add: ClassifyOutputScript_templates)

subsection \<open>Address derivation\<close>

text \<open>
  C10. Address derivation treats every network string other than exactly \<open>mainnet\<close>
  (\<open>testnet\<close>, an unrecognized or an empty value) as testnet: for every script of an
  address-bearing type the result is what the address constructor of that type yields on
  the payload slice with the testnet3 parameters; the tag is never rejected.
\<close>

theorem GetAddressFromScript_non_mainnet:
  assumes "network \<noteq> ''mainnet''"
  shows "GetAddressFromScript newAddress s network =
     (if ClassifyOutputScript s = ''p2pkh''
        then newAddress AddressPubKeyHash (slice s 3 23) TestNet3Params
      else if ClassifyOutputScript s = ''p2sh''
        then newAddress AddressScriptHash (slice s 2 22) TestNet3Params
      else if ClassifyOutputScript s = ''p2wpkh''
        then newAddress AddressWitnessPubKeyHash (slice s 2 22) TestNet3Params
      else if ClassifyOutputScript s = ''p2wsh''
        then newAddress AddressWitnessScriptHash (slice s 2 34) TestNet3Params
      else if ClassifyOutputScript s = ''p2tr''
        then newAddress AddressTaproot (slice s 2 34) TestNet3Params
      else None)"
  using assms ClassifyOutputScript_length [of s]
  by (simp add: GetAddressFromScript_def Let_def)

theorem GetAddressFromScript_non_mainnet_witness:
  "''regtest'' \<noteq> ''mainnet'' \<and>
   ClassifyOutputScript ([0x76, 0xa9, 0x14] @ genesis_key_hash @ [0x88, 0xac]) = ''p2pkh'' \<and>
   GetAddressFromScript sample_NewAddress ([0x76, 0xa9, 0x14] @ genesis_key_hash @ [0x88, 0xac])
     ''regtest'' = Some ''mpXwg4jMtRhuSpVq4xS3HFHmCmWp9NyGKt'' \<and>
   GetAddressFromScript sample_NewAddress ([0x76, 0xa9, 0x14] @ genesis_key_hash @ [0x88, 0xac])
     [] = Some ''mpXwg4jMtRhuSpVq4xS3HFHmCmWp9NyGKt''"
  using GetAddressFromScript_non_mainnet
    [of "''regtest''" sample_NewAddress "[0x76, 0xa9, 0x14] @ genesis_key_hash @ [0x88, 0xac]"]
    GetAddressFromScript_non_mainnet
    [of "[]" sample_NewAddress "[0x76, 0xa9, 0x14] @ genesis_key_hash @ [0x88, 0xac]"]
  by (simp add: ClassifyOutputScript_def genesis_key_hash_def sample_NewAddress_def slice_def)

subsection \<open>Warnings, weight and virtual size\<close>

lemma GenerateWarnings_mem:
  "(''HIGH_FEE'' \<in> set (GenerateWarnings f r b outs)) = (1000000 <s f \<or> 200 < r)"
  "(''DUST_OUTPUT'' \<in> set (GenerateWarnings f r b outs)) =
     (\<exists>out\<in>set outs. out_ScriptType out \<noteq> ''op_return'' \<and> out_ValueSats out <s 546)"
  "(''UNKNOWN_OUTPUT_SCRIPT'' \<in> set (GenerateWarnings f r b outs)) =
     (\<exists>out\<in>set outs. out_ScriptType out = ''unknown'')"
  "(''RBF_SIGNALING'' \<in> set (GenerateWarnings f r b outs)) = b"
  by (simp_all add: GenerateWarnings_def Let_def list_ex_iff)

lemma GenerateWarnings_order:
  "subseq (GenerateWarnings f r b outs)
     [''HIGH_FEE'', ''DUST_OUTPUT'', ''UNKNOWN_OUTPUT_SCRIPT'', ''RBF_SIGNALING'']"
  by (simp add: GenerateWarnings_def Let_def)

lemma ParseTransaction_fields:
  assumes "ParseTransaction lib fixture = Inr t"
  shows "tx_Warnings t =
           GenerateWarnings (tx_FeeSats t) (tx_FeeRateSatVb t) (tx_RbfSignaling t) (tx_Vout t)"
    and "tx_Vbytes t = (tx_Weight t + 3) div 4"
    and "HexToBytes (RawTx fixture) = Inr raw \<Longrightarrow> Deserialize lib raw = Inr (tx, rest) \<Longrightarrow>
         tx_Weight t = SerializeSizeStripped lib tx * 3 + SerializeSize lib tx \<and>
         tx_SizeBytes t = SerializeSize lib tx"
  using assms
  by (auto simp: ParseTransaction_def Let_def split_def split: sum.splits)

text \<open>The analysis of the sample coinbase, evaluated.\<close>

lemma genesis_raw: "HexToBytes (RawTx genesis_fixture) = Inr genesis_coinbase_bytes"
  by code_simp

lemma genesis_Deserialize:
  "Deserialize sample_library genesis_coinbase_bytes = Inr (genesis_coinbase, [])"
  by code_simp

lemma genesis_ParseTransaction:
  "ParseTransaction sample_library genesis_fixture = Inr genesis_transaction"
  by code_simp

text \<open>
  C7. For every parsed transaction, the warnings list contains \<open>RBF_SIGNALING\<close> iff
  \<open>rbf_signaling\<close> is true; \<open>DUST_OUTPUT\<close> iff some output whose type is not
  \<open>op_return\<close> has \<open>value_sats < 546\<close>; \<open>HIGH_FEE\<close> iff \<open>fee_sats > 1,000,000\<close> or
  \<open>fee_rate_sat_vb > 200\<close>; \<open>UNKNOWN_OUTPUT_SCRIPT\<close> iff some output has type
  \<open>unknown\<close>; and the codes appear, each at most once, in the order \<open>HIGH_FEE\<close>,
  \<open>DUST_OUTPUT\<close>, \<open>UNKNOWN_OUTPUT_SCRIPT\<close>, \<open>RBF_SIGNALING\<close>.
\<close>

theorem ParseTransaction_warnings:
  assumes "ParseTransaction lib fixture = Inr t"
  shows "(''RBF_SIGNALING'' \<in> set (tx_Warnings t)) = tx_RbfSignaling t \<and>
         (''DUST_OUTPUT'' \<in> set (tx_Warnings t)) =
           (\<exists>out\<in>set (tx_Vout t). out_ScriptType out \<noteq> ''op_return'' \<and>
                                     out_ValueSats out <s 546) \<and>
         (''HIGH_FEE'' \<in> set (tx_Warnings t)) =
           (1000000 <s tx_FeeSats t \<or> 200 < tx_FeeRateSatVb t) \<and>
         (''UNKNOWN_OUTPUT_SCRIPT'' \<in> set (tx_Warnings t)) =
           (\<exists>out\<in>set (tx_Vout t). out_ScriptType out = ''unknown'') \<and>
         subseq (tx_Warnings t)
           [''HIGH_FEE'', ''DUST_OUTPUT'', ''UNKNOWN_OUTPUT_SCRIPT'', ''RBF_SIGNALING'']"
  unfolding ParseTransaction_fields(1) [OF assms]
  by (simp only: GenerateWarnings_mem GenerateWarnings_order simp_thms)

theorem ParseTransaction_warnings_witness:
  "ParseTransaction sample_library genesis_fixture = Inr genesis_transaction \<and>
   tx_Warnings genesis_transaction = [''UNKNOWN_OUTPUT_SCRIPT''] \<and>
   ''UNKNOWN_OUTPUT_SCRIPT'' \<in> set (tx_Warnings genesis_transaction) \<and>
   (\<exists>out\<in>set (tx_Vout genesis_transaction). out_ScriptType out = ''unknown'') \<and>
   ''RBF_SIGNALING'' \<notin> set (tx_Warnings genesis_transaction) \<and>
   \<not> tx_RbfSignaling genesis_transaction"
  using ParseTransaction_warnings [OF genesis_ParseTransaction] genesis_ParseTransaction
  by (simp add: genesis_transaction_def)

text \<open>
  C8. For every parsed transaction, \<open>weight = base_size * 3 + total_size\<close>, where
  \<open>base_size\<close> is the length of the serialization without witness data and
  \<open>total_size\<close> that of the full one, and \<open>vbytes = (weight + 3) / 4\<close> by integer
  division; hence \<open>vbytes\<close> is the ceiling of \<open>weight / 4\<close>, and within 1 of it.
\<close>

theorem ParseTransaction_vbytes:
  assumes "HexToBytes (RawTx fixture) = Inr raw"
    and "Deserialize lib raw = Inr (tx, rest)"
    and "ParseTransaction lib fixture = Inr t"
  shows "tx_Weight t = SerializeSizeStripped lib tx * 3 + SerializeSize lib tx \<and>
         tx_SizeBytes t = SerializeSize lib tx \<and>
         tx_Vbytes t = (tx_Weight t + 3) div 4 \<and>
         int (tx_Vbytes t) = \<lceil>real (tx_Weight t) / 4\<rceil> \<and>
         \<bar>int (tx_Vbytes t) - \<lceil>real (tx_Weight t) / 4\<rceil>\<bar> \<le> 1"
proof -
  have w: "tx_Weight t = SerializeSizeStripped lib tx * 3 + SerializeSize lib tx"
    and s: "tx_SizeBytes t = SerializeSize lib tx"
    using ParseTransaction_fields(3) [OF assms(3) assms(1) assms(2)] by simp_all
  have v: "tx_Vbytes t = (tx_Weight t + 3) div 4"
    by (rule ParseTransaction_fields(2) [OF assms(3)])
  have c: "int ((n + 3) div 4) = \<lceil>real n / 4\<rceil>" for n :: nat
  proof -
    have "\<lceil>real n / 4\<rceil> = \<lceil>real_of_int (int n) / real_of_int 4\<rceil>" by simp
    also have "\<dots> = - ((- int n) div 4)" by (simp only: ceiling_divide_eq_div)
    also have "\<dots> = int ((n + 3) div 4)" by (simp add: zdiv_int)
    finally show ?thesis by simp
  qed
  show ?thesis using w s v c [of "tx_Weight t"] by simp
qed

theorem ParseTransaction_vbytes_witness:
  "HexToBytes (RawTx genesis_fixture) = Inr genesis_coinbase_bytes \<and>
   Deserialize sample_library genesis_coinbase_bytes = Inr (genesis_coinbase, []) \<and>
   ParseTransaction sample_library genesis_fixture = Inr genesis_transaction \<and>
   tx_Weight genesis_transaction = 816 \<and>
   tx_Vbytes genesis_transaction = 204 \<and>
   int (tx_Vbytes genesis_transaction) = \<lceil>real (tx_Weight genesis_transaction) / 4\<rceil>"
  using ParseTransaction_vbytes [OF genesis_raw genesis_Deserialize genesis_ParseTransaction]
    genesis_raw genesis_Deserialize genesis_ParseTransaction
  by (simp add: genesis_transaction_def)

section \<open>Properties of the undo-file decoder\<close>

lemma ReadFull_Inr_iff:
  "(ReadFull n r = Inr (a, r')) = (n \<le> length r \<and> a = take n r \<and> r' = drop n r)"
  by (cases "n = 0"; cases "r = []") (auto simp: ReadFull_def)

lemma ReadFull_append:
  "ReadFull n r = Inr (a, r') \<Longrightarrow> ReadFull n (r @ s) = Inr (a, r' @ s)"
  by (simp add: ReadFull_Inr_iff)

lemma ReadCompactSize_append:
  assumes "ReadCompactSize r = Inr (v, r')"
  shows "ReadCompactSize (r @ s) = Inr (v, r' @ s)"
proof -
  from assms obtain b r1 where b: "ReadFull 1 r = Inr (b, r1)"
    by (cases "ReadFull 1 r") (auto simp: ReadCompactSize_def)
  then have b': "ReadFull 1 (r @ s) = Inr (b, r1 @ s)" by (rule ReadFull_append)
  have more: "(case ReadFull k r1 of Inl e \<Rightarrow> Inl e | Inr (w, r2) \<Rightarrow> Inr (f w, r2)) = Inr (v, r') \<Longrightarrow>
     (case ReadFull k (r1 @ s) of Inl e \<Rightarrow> Inl e | Inr (w, r2) \<Rightarrow> Inr (f w, r2)) = Inr (v, r' @ s)"
    for k and f :: "byte list \<Rightarrow> u64"
  proof -
    assume a: "(case ReadFull k r1 of Inl e \<Rightarrow> Inl e | Inr (w, r2) \<Rightarrow> Inr (f w, r2)) = Inr (v, r')"
    then obtain w r2 where w: "ReadFull k r1 = Inr (w, r2)"
      by (cases "ReadFull k r1") auto
    with a have "v = f w" "r' = r2" by simp_all
    with ReadFull_append [OF w, of s] show ?thesis by simp
  qed
  show ?thesis
    using assms
      more [where k = 2 and f = "\<lambda>w. ucast (le_uint w :: 16 word)"]
      more [where k = 4 and f = "\<lambda>w. ucast (le_uint w :: 32 word)"]
      more [where k = 8 and f = "\<lambda>w. le_uint w"]
    unfolding ReadCompactSize_def b b'
    by (simp split: if_splits)
qed

lemma parseUndoFile_loop_eof:
  "length data < recordStart + 8 \<Longrightarrow>
   parseUndoFile_loop lib data recordStart wantCount =
     Inl (Errorf ''parseUndoFile: no matching undo record found in rev file'' None)"
  by (subst parseUndoFile_loop.simps) (auto simp: ReadFull_def)

lemma parseUndoFile_loop_skip:
  "ReadFull 8 (drop recordStart data) = Inr (header, r1) \<Longrightarrow>
   ReadCompactSize r1 = Inr (txUndoCount, r2) \<Longrightarrow> txUndoCount \<noteq> wantCount \<Longrightarrow>
   parseUndoFile_loop lib data recordStart wantCount =
     parseUndoFile_loop lib data
       (recordStart + 8 + unat (le_uint (slice header 4 8) :: u32) + 32) wantCount"
  by (subst parseUndoFile_loop.simps) (simp add: Let_def)

lemma parseUndoFile_loop_match:
  "ReadFull 8 (drop recordStart data) = Inr (header, r1) \<Longrightarrow>
   ReadCompactSize r1 = Inr (wantCount, r2) \<Longrightarrow>
   parseUndoFile_loop lib data recordStart wantCount = read_tx_undos lib (unat wantCount) r2 []"
  by (subst parseUndoFile_loop.simps) (simp add: Let_def)

lemma parseUndoFile_loop_count_error:
  "ReadFull 8 (drop recordStart data) = Inr (header, r1) \<Longrightarrow>
   ReadCompactSize r1 = Inl err \<Longrightarrow>
   parseUndoFile_loop lib data recordStart wantCount =
     Inl (Errorf ''parseUndoFile: failed to read tx undo count: %w'' (Some err))"
  by (subst parseUndoFile_loop.simps) (simp add: Let_def)

lemma parseUndoFile_loop_header_error:
  "ReadFull 8 (drop recordStart data) = Inl err \<Longrightarrow>
   parseUndoFile_loop lib data recordStart wantCount =
     Inl (Errorf ''parseUndoFile: no matching undo record found in rev file'' None)"
  by (subst parseUndoFile_loop.simps) (auto simp: ReadFull_def split: if_splits)

lemma parseUndoFile_loop_drop:
  "parseUndoFile_loop lib data pos want = parseUndoFile_loop lib (drop pos data) 0 want"
proof (induction "length data - pos" arbitrary: data pos rule: less_induct)
  case less
  show ?case
  proof (cases "ReadFull 8 (drop pos data)")
    case (Inl err)
    then show ?thesis
      by (simp add: parseUndoFile_loop_header_error)
  next
    case (Inr x)
    then obtain header r1 where h: "ReadFull 8 (drop pos data) = Inr (header, r1)"
      by (cases x) simp
    then have h0: "ReadFull 8 (drop 0 (drop pos data)) = Inr (header, r1)" by simp
    from h have "8 \<le> length (drop pos data)" by (simp add: ReadFull_Inr_iff)
    then have len: "pos + 8 \<le> length data" by simp
    show ?thesis
    proof (cases "ReadCompactSize r1")
      case (Inl err)
      show ?thesis
        by (simp only: parseUndoFile_loop_count_error [OF h Inl]
            parseUndoFile_loop_count_error [OF h0 Inl])
    next
      case (Inr y)
      then obtain cnt r2 where c: "ReadCompactSize r1 = Inr (cnt, r2)" by (cases y) simp
      show ?thesis
      proof (cases "cnt = want")
        case True
        with c have c': "ReadCompactSize r1 = Inr (want, r2)" by simp
        show ?thesis
          by (simp only: parseUndoFile_loop_match [OF h c'] parseUndoFile_loop_match [OF h0 c'])
      next
        case False
        define k where "k = 8 + unat (le_uint (slice header 4 8) :: u32) + 32"
        have L: "parseUndoFile_loop lib data pos want = parseUndoFile_loop lib data (pos + k) want"
          using parseUndoFile_loop_skip [OF h c False, of lib] by (simp add: k_def add.assoc)
        have R: "parseUndoFile_loop lib (drop pos data) 0 want =
                 parseUndoFile_loop lib (drop pos data) k want"
          using parseUndoFile_loop_skip [OF h0 c False, of lib] by (simp add: k_def)
        have k: "0 < k" by (simp add: k_def)
        have "parseUndoFile_loop lib data (pos + k) want =
              parseUndoFile_loop lib (drop (pos + k) data) 0 want"
          using len k by (intro less) arith
        moreover have "parseUndoFile_loop lib (drop pos data) k want =
              parseUndoFile_loop lib (drop k (drop pos data)) 0 want"
          using len k by (intro less) simp
        ultimately show ?thesis
          by (simp add: L R add.commute)
      qed
    qed
  qed
qed

lemma parseUndoFile_loop_skip_record:
  assumes "length header = 8"
    and "length payload = unat (le_uint (slice header 4 8) :: u32)"
    and "length hash = 32"
    and "ReadCompactSize payload = Inr (txUndoCount, r)"
    and "txUndoCount \<noteq> wantCount"
  shows "parseUndoFile_loop lib (pre @ header @ payload @ hash @ rest) (length pre) wantCount =
           parseUndoFile_loop lib (pre @ header @ payload @ hash @ rest)
             (length pre + 8 + unat (le_uint (slice header 4 8) :: u32) + 32) wantCount"
    and "parseUndoFile_loop lib (pre @ header @ payload @ hash @ rest) (length pre) wantCount =
           parseUndoFile_loop lib rest 0 wantCount"
proof -
  let ?data = "pre @ header @ payload @ hash @ rest"
  let ?next = "length pre + 8 + unat (le_uint (slice header 4 8) :: u32) + 32"
  have h: "ReadFull 8 (drop (length pre) ?data) = Inr (header, payload @ hash @ rest)"
    using assms(1) by (simp add: ReadFull_Inr_iff)
  have c: "ReadCompactSize (payload @ hash @ rest) = Inr (txUndoCount, r @ hash @ rest)"
    using assms(4) by (rule ReadCompactSize_append)
  show 1: "parseUndoFile_loop lib ?data (length pre) wantCount =
           parseUndoFile_loop lib ?data ?next wantCount"
    using h c assms(5) by (rule parseUndoFile_loop_skip)
  have "drop ?next ?data = rest"
    using assms(1,2,3) by simp
  then have 2: "parseUndoFile_loop lib ?data ?next wantCount = parseUndoFile_loop lib rest 0 wantCount"
    using parseUndoFile_loop_drop [of lib ?data ?next wantCount] by simp
  from 1 2 show "parseUndoFile_loop lib ?data (length pre) wantCount =
           parseUndoFile_loop lib rest 0 wantCount" by simp
qed

lemma parseUndoFile_loop_match_record:
  assumes "length header = 8" and "ReadCompactSize body = Inr (wantCount, r2)"
  shows "parseUndoFile_loop lib (header @ body) 0 wantCount =
           read_tx_undos lib (unat wantCount) r2 []"
proof -
  have "ReadFull 8 (drop 0 (header @ body)) = Inr (header, body)"
    using assms(1) by (simp add: ReadFull_Inr_iff)
  then show ?thesis using assms(2) by (rule parseUndoFile_loop_match)
qed

text \<open>
  C4. Whenever the record at the current position of a rev file has a first
  \<open>num_tx_undos\<close> CompactSize different from the required count, the decoder skips the
  whole record: it continues at record start + 8 + record size + 32 and retries there.
  The outcome is that of decoding the bytes after the record alone, whatever the 32
  bytes of the record hash are: if fewer than 8 bytes follow, it is the error "no
  matching undo record"; if a record with the required count follows, it is the list of
  prevouts parsed from that record.
\<close>

theorem parseUndoFile_skips_mismatch:
  assumes "length header = 8"
    and "length payload = unat (le_uint (slice header 4 8) :: u32)"
    and "length hash = 32"
    and "ReadCompactSize payload = Inr (txUndoCount, r)"
    and "txUndoCount \<noteq> wantCount"
  shows "parseUndoFile_loop lib (pre @ header @ payload @ hash @ rest) (length pre) wantCount =
           parseUndoFile_loop lib (pre @ header @ payload @ hash @ rest)
             (length pre + 8 + unat (le_uint (slice header 4 8) :: u32) + 32) wantCount \<and>
         parseUndoFile_loop lib (pre @ header @ payload @ hash @ rest) (length pre) wantCount =
           parseUndoFile_loop lib rest 0 wantCount \<and>
         (length rest < 8 \<longrightarrow>
            parseUndoFile_loop lib (pre @ header @ payload @ hash @ rest) (length pre) wantCount =
              Inl (Errorf ''parseUndoFile: no matching undo record found in rev file'' None)) \<and>
         (rest = header' @ body \<and> length header' = 8 \<and>
          ReadCompactSize body = Inr (wantCount, r2) \<longrightarrow>
            parseUndoFile_loop lib (pre @ header @ payload @ hash @ rest) (length pre) wantCount =
              read_tx_undos lib (unat wantCount) r2 [])"
proof (intro conjI impI)
  let ?data = "pre @ header @ payload @ hash @ rest"
  show "parseUndoFile_loop lib ?data (length pre) wantCount =
           parseUndoFile_loop lib ?data
             (length pre + 8 + unat (le_uint (slice header 4 8) :: u32) + 32) wantCount"
    using assms by (rule parseUndoFile_loop_skip_record(1))
  show skip: "parseUndoFile_loop lib ?data (length pre) wantCount =
           parseUndoFile_loop lib rest 0 wantCount"
    using assms by (rule parseUndoFile_loop_skip_record(2))
  show "parseUndoFile_loop lib ?data (length pre) wantCount =
          Inl (Errorf ''parseUndoFile: no matching undo record found in rev file'' None)"
    if "length rest < 8"
  proof -
    have "parseUndoFile_loop lib rest 0 wantCount =
        Inl (Errorf ''parseUndoFile: no matching undo record found in rev file'' None)"
      using that by (simp add: parseUndoFile_loop_eof)
    with skip show ?thesis by (rule trans)
  qed
  show "parseUndoFile_loop lib ?data (length pre) wantCount =
          read_tx_undos lib (unat wantCount) r2 []"
    if m: "rest = header' @ body \<and> length header' = 8 \<and>
           ReadCompactSize body = Inr (wantCount, r2)"
  proof -
    from m have "parseUndoFile_loop lib (header' @ body) 0 wantCount =
        read_tx_undos lib (unat wantCount) r2 []"
      by (intro parseUndoFile_loop_match_record) simp_all
    with m have "parseUndoFile_loop lib rest 0 wantCount =
        read_tx_undos lib (unat wantCount) r2 []" by simp
    with skip show ?thesis by (rule trans)
  qed
qed

lemma sample_match:
  "read_tx_undos sample_library (unat (1 :: u64)) (undo_inputs_block170 @ replicate 32 0xcc) [] =
     Inr block170_prevouts"
  by code_simp

theorem parseUndoFile_skips_mismatch_witness:
  "length [0xf9, 0xbe, 0xb4, 0xd9, 0x03, 0x00, 0x00, 0x00 :: byte] = 8 \<and>
   length [0x02, 0x00, 0x00 :: byte] =
     unat (le_uint (slice [0xf9, 0xbe, 0xb4, 0xd9, 0x03, 0x00, 0x00, 0x00] 4 8) :: u32) \<and>
   length (replicate 32 (0xaa :: byte)) = 32 \<and>
   ReadCompactSize [0x02, 0x00, 0x00] = Inr (2, [0x00, 0x00]) \<and>
   (2 :: u64) \<noteq> 1 \<and>
   undo_record_block170 = undo_header_block170 @ (undo_payload_block170 @ replicate 32 0xcc) \<and>
   length undo_header_block170 = 8 \<and>
   ReadCompactSize (undo_payload_block170 @ replicate 32 0xcc) =
     Inr (1, undo_inputs_block170 @ replicate 32 0xcc) \<and>
   parseUndoFile_loop sample_library (undo_record_two @ undo_record_block170) 0 1 =
     Inr block170_prevouts \<and>
   length ([] :: byte list) < 8 \<and>
   parseUndoFile_loop sample_library undo_record_two 0 1 =
     Inl (Errorf ''parseUndoFile: no matching undo record found in rev file'' None)"
proof -
  have 1: "length [0xf9, 0xbe, 0xb4, 0xd9, 0x03, 0x00, 0x00, 0x00 :: byte] = 8" by simp
  have 2: "length [0x02, 0x00, 0x00 :: byte] =
     unat (le_uint (slice [0xf9, 0xbe, 0xb4, 0xd9, 0x03, 0x00, 0x00, 0x00] 4 8) :: u32)"
    by code_simp
  have 3: "length (replicate 32 (0xaa :: byte)) = 32" by simp
  have 4: "ReadCompactSize [0x02, 0x00, 0x00] = Inr (2, [0x00, 0x00])"
    by (simp add: ReadCompactSize_def ReadFull_def)
  have 5: "(2 :: u64) \<noteq> 1" by simp
  have 6: "undo_record_block170 =
      undo_header_block170 @ (undo_payload_block170 @ replicate 32 0xcc)"
    by (simp add: undo_record_block170_def)
  have 7: "length undo_header_block170 = 8" by (simp add: undo_header_block170_def)
  have 8: "ReadCompactSize (undo_payload_block170 @ replicate 32 0xcc) =
     Inr (1, undo_inputs_block170 @ replicate 32 0xcc)"
    by (simp add: undo_payload_block170_def ReadCompactSize_Cons)
  note a = parseUndoFile_skips_mismatch [OF 1 2 3 4 5, where lib = sample_library and pre = "[]"
      and rest = undo_record_block170 and header' = undo_header_block170
      and body = "undo_payload_block170 @ replicate 32 0xcc"
      and ?r2.0 = "undo_inputs_block170 @ replicate 32 0xcc"]
  note b = parseUndoFile_skips_mismatch [OF 1 2 3 4 5, where lib = sample_library and pre = "[]"
      and rest = "[]" and header' = undo_header_block170
      and body = "undo_payload_block170 @ replicate 32 0xcc"
      and ?r2.0 = "undo_inputs_block170 @ replicate 32 0xcc"]
  have A: "parseUndoFile_loop sample_library (undo_record_two @ undo_record_block170) 0 1 =
     Inr block170_prevouts"
    using a [THEN conjunct2, THEN conjunct2, THEN conjunct2] 6 7 8 sample_match
    by (simp add: undo_record_two_def)
  have B: "parseUndoFile_loop sample_library undo_record_two 0 1 =
     Inl (Errorf ''parseUndoFile: no matching undo record found in rev file'' None)"
    using b [THEN conjunct2, THEN conjunct2, THEN conjunct1]
    by (simp add: undo_record_two_def)
  from 1 2 3 4 5 6 7 8 A B show ?thesis by simp
qed

subsection \<open>A script length beyond the allocation limit\<close>

text \<open>A raw-script length taken from the file that \<open>make\<close> refuses is a panic, which
  no caller turns into an error: here on a record whose only prevout announces the
  length \<open>ff ff ff ff ff ff ff ff ff 7f\<close>.\<close>

lemma undo_script_panics:
  assumes "5 < nSize" and "0x7FFFFFFFFFFFFFFF < nSize - 6 \<or> maxAlloc lib < nSize - 6"
  shows "undo_script lib nSize r = Inl (Panic ''makeslice: len out of range'')"
proof -
  from assms(1) have "nSize \<noteq> 0" "nSize \<noteq> 1" "nSize \<noteq> 2" "nSize \<noteq> 3" "nSize \<noteq> 4"
    "nSize \<noteq> 5"
    by auto
  with assms(2) show ?thesis by (simp add: undo_script_def Let_def)
qed

lemma read_inputs_panics:
  "readUndoPrevout lib r = Inl (Panic m) \<Longrightarrow>
   read_inputs lib (Suc k) r txPrevouts = Inl (Panic m)"
  by simp

lemma sample_panic:
  "parseUndoFile_loop sample_library
     ([0xf9, 0xbe, 0xb4, 0xd9, 0x0e, 0x00, 0x00, 0x00] @
      [0x01, 0x01, 0x00, 0x00,
       0xff, 0xff, 0xff, 0xff, 0xff, 0xff, 0xff, 0xff, 0xff, 0x7f] @ replicate 32 0xdd) 0 1 =
   Inl (Panic ''makeslice: len out of range'')"
  by code_simp

section \<open>Properties of the block analyzer\<close>

lemma merkle_loop_pair_level:
  "merkle_loop H txHashes i nextLevel = nextLevel @ pair_level H (drop i txHashes)"
proof (induction H txHashes i nextLevel rule: merkle_loop.induct)
  case (1 H txHashes i nextLevel)
  show ?case
  proof (cases "i < length txHashes")
    case False
    then show ?thesis by (subst merkle_loop.simps) simp
  next
    case True
    note IH = "1.IH" [OF True refl refl refl refl]
    have d: "drop i txHashes = txHashes ! i # drop (Suc i) txHashes"
      using True by (simp add: Cons_nth_drop_Suc)
    show ?thesis
    proof (cases "i + 1 < length txHashes")
      case True
      then have d2: "drop (Suc i) txHashes = txHashes ! (Suc i) # drop (Suc (Suc i)) txHashes"
        by (simp add: Cons_nth_drop_Suc)
      show ?thesis
        using True \<open>i < length txHashes\<close> IH
        by (subst merkle_loop.simps) (simp add: Let_def d d2)
    next
      case False
      then have d2: "drop (Suc i) txHashes = []" "drop (Suc (Suc i)) txHashes = []" by simp_all
      show ?thesis
        using False \<open>i < length txHashes\<close> IH
        by (subst merkle_loop.simps) (simp add: Let_def d d2)
    qed
  qed
qed

lemma computeMerkleRoot_single: "computeMerkleRoot H [h] = h"
  by (subst computeMerkleRoot.simps) simp

lemma computeMerkleRoot_empty: "computeMerkleRoot H [] = replicate 32 0"
  by (subst computeMerkleRoot.simps) simp

lemma computeMerkleRoot_level:
  assumes "2 \<le> length hs"
  shows "computeMerkleRoot H hs = computeMerkleRoot H (pair_level H hs)"
proof -
  from assms have "length hs \<noteq> 0" "length hs \<noteq> 1" by auto
  then show ?thesis
    by (subst computeMerkleRoot.simps) (simp add: merkle_loop_pair_level)
qed

lemma read_transactions_hashes:
  "read_transactions lib n r transactions txHashes = Inr (transactions', txHashes') \<Longrightarrow>
   txHashes = map (TxHash lib) transactions \<Longrightarrow> txHashes' = map (TxHash lib) transactions'"
proof (induction n arbitrary: r transactions txHashes)
  case 0
  then show ?case by auto
next
  case (Suc n)
  from Suc.prems(1) obtain tx r' where d: "Deserialize lib r = Inr (tx, r')"
    by (cases "Deserialize lib r") auto
  with Suc.prems(1) have
    "read_transactions lib n r' (transactions @ [tx]) (txHashes @ [TxHash lib tx]) =
       Inr (transactions', txHashes')" by simp
  then show ?case
    by (rule Suc.IH) (simp add: Suc.prems(2))
qed

lemma read_transactions_hashes_init:
  "read_transactions lib n r [] [] = Inr (transactions, txHashes) \<Longrightarrow>
   txHashes = map (TxHash lib) transactions"
  by (erule read_transactions_hashes) simp

lemma read_block_Inr:
  assumes "read_block lib blkReader = Inr (header, txCount, transactions, txHashes)"
  obtains magic r1 blockSizeLE r2 r3 r4 where
    "ReadFull 4 blkReader = Inr (magic, r1)"
    "ReadFull 4 r1 = Inr (blockSizeLE, r2)"
    "BlockHeader_Deserialize r2 = Inr (header, r3)"
    "ReadCompactSize r3 = Inr (txCount, r4)"
    "read_transactions lib (unat txCount) r4 [] [] = Inr (transactions, txHashes)"
  using assms unfolding read_block_def
  by (auto split: sum.splits)

lemma read_block_hashes:
  assumes "read_block lib blkReader = Inr (header, txCount, transactions, txHashes)"
  shows "txHashes = map (TxHash lib) transactions"
  using assms by (elim read_block_Inr) (rule read_transactions_hashes_init)

subsection \<open>The analyzer on the sample block\<close>

lemma sample_read_transactions:
  "read_transactions sample_library (unat (1 :: u64)) genesis_coinbase_bytes [] [] =
     Inr ([genesis_coinbase], [genesis_txid])"
  using genesis_Deserialize by (simp add: sample_library_def)

lemma sample_read_block:
  assumes "length header = 80"
  shows "read_block sample_library (block_file header) =
           Inr (header, 1, [genesis_coinbase], [genesis_txid])"
proof -
  have 1: "ReadFull 4 (block_file header) =
        Inr ([0xf9, 0xbe, 0xb4, 0xd9],
             [0x1d, 0x01, 0x00, 0x00] @ header @ [0x01] @ genesis_coinbase_bytes)"
    unfolding block_file_def by (rule ReadFull_exact) simp
  have 2: "ReadFull 4 ([0x1d, 0x01, 0x00, 0x00] @ header @ [0x01] @ genesis_coinbase_bytes) =
        Inr ([0x1d, 0x01, 0x00, 0x00], header @ [0x01] @ genesis_coinbase_bytes)"
    by (rule ReadFull_exact) simp
  have 3: "BlockHeader_Deserialize (header @ [0x01] @ genesis_coinbase_bytes) =
        Inr (header, [0x01] @ genesis_coinbase_bytes)"
    unfolding BlockHeader_Deserialize_def using assms by (rule ReadFull_exact)
  have 4: "ReadCompactSize ([0x01] @ genesis_coinbase_bytes) = Inr (1, genesis_coinbase_bytes)"
    by (simp add: ReadCompactSize_def ReadFull_def)
  show ?thesis
    by (simp only: read_block_def 1 2 3 4 sample_read_transactions sum.case prod.case)
qed

lemma genesis_header_length: "length genesis_header = 80"
  by (simp add: genesis_header_def)

lemma altered_header_length: "length altered_header = 80"
  by (simp add: altered_header_def genesis_header_def)

lemma genesis_merkle: "hdr_MerkleRoot genesis_header = genesis_txid"
  by code_simp

lemma altered_merkle: "hdr_MerkleRoot altered_header \<noteq> genesis_txid"
  by code_simp

lemma genesis_block_hash:
  "Hash_String (BlockHash sample_library genesis_header) =
     ''000000000019d6689c085ae165831e934ff763ae46a2a6c172b3f1b60a8ce26f''"
  by code_simp

lemma altered_block_hash:
  "Hash_String (BlockHash sample_library altered_header) =
     ''b71643ef2d9aa1599794a57ed05786b6cb264c827b5ea49a9cebdcbaef1b100b''"
  by code_simp

lemma block170_merkle:
  "DoubleHashH sample_library (block170_txid_0 @ block170_txid_1) = block170_merkle_root"
  by code_simp

subsection \<open>Merkle verification\<close>

text \<open>
  C5. The analyzer recomputes the Merkle root bottom-up: a single hash is its own root,
  and a level of two or more hashes is replaced by the double SHA-256 of the
  concatenation \<open>left || right\<close> of neighbours, an odd trailing hash being paired with
  itself. For every block whose records parse, if the root computed from the transaction
  hashes differs from the Merkle root of the header, the analyzer returns, whatever the
  undo file holds, a record with \<open>ok = false\<close>, the block hash and the error code
  \<open>INVALID_MERKLE_ROOT\<close>.
\<close>

theorem merkle_root_verified:
  "computeMerkleRoot H [] = replicate 32 0 \<and>
   computeMerkleRoot H [h] = h \<and>
   (2 \<le> length hs \<longrightarrow> computeMerkleRoot H hs = computeMerkleRoot H (pair_level H hs)) \<and>
   (read_block lib blkReader = Inr (header, txCount, transactions, txHashes) \<and>
    computeMerkleRoot (DoubleHashH lib) (map (TxHash lib) transactions) \<noteq> hdr_MerkleRoot header
    \<longrightarrow>
      parseOneBlock lib blkReader revReader =
        Inr (error_BlockOutput (Hash_String (BlockHash lib header)) ''INVALID_MERKLE_ROOT'') \<and>
      blk_OK (error_BlockOutput (Hash_String (BlockHash lib header)) ''INVALID_MERKLE_ROOT'')
        = False \<and>
      blk_Error (error_BlockOutput (Hash_String (BlockHash lib header)) ''INVALID_MERKLE_ROOT'')
        = Some ''INVALID_MERKLE_ROOT'' \<and>
      blk_BlockHash (error_BlockOutput (Hash_String (BlockHash lib header)) ''INVALID_MERKLE_ROOT'')
        = Hash_String (BlockHash lib header))"
proof (intro conjI impI)
  show "computeMerkleRoot H [] = replicate 32 0" by (rule computeMerkleRoot_empty)
  show "computeMerkleRoot H [h] = h" by (rule computeMerkleRoot_single)
  show "computeMerkleRoot H hs = computeMerkleRoot H (pair_level H hs)" if "2 \<le> length hs"
    using that by (rule computeMerkleRoot_level)
next
  assume a: "read_block lib blkReader = Inr (header, txCount, transactions, txHashes) \<and>
    computeMerkleRoot (DoubleHashH lib) (map (TxHash lib) transactions) \<noteq> hdr_MerkleRoot header"
  then have h: "txHashes = map (TxHash lib) transactions"
    using read_block_hashes by blast
  show "parseOneBlock lib blkReader revReader =
        Inr (error_BlockOutput (Hash_String (BlockHash lib header)) ''INVALID_MERKLE_ROOT'')"
    using a h by (simp add: parseOneBlock_def Let_def)
qed (simp_all add: error_BlockOutput_def)

theorem merkle_root_verified_witness:
  "2 \<le> length [block170_txid_0, block170_txid_1] \<and>
   computeMerkleRoot (DoubleHashH sample_library) [block170_txid_0, block170_txid_1] =
     block170_merkle_root \<and>
   read_block sample_library (block_file altered_header) =
     Inr (altered_header, 1, [genesis_coinbase], [genesis_txid]) \<and>
   computeMerkleRoot (DoubleHashH sample_library) (map (TxHash sample_library) [genesis_coinbase])
     \<noteq> hdr_MerkleRoot altered_header \<and>
   parseOneBlock sample_library (block_file altered_header) \<lparr> rs_data = [], rs_offset = 0 \<rparr> =
     Inr (error_BlockOutput
            ''b71643ef2d9aa1599794a57ed05786b6cb264c827b5ea49a9cebdcbaef1b100b''
            ''INVALID_MERKLE_ROOT'')"
proof -
  note t = merkle_root_verified [of "DoubleHashH sample_library" _
      "[block170_txid_0, block170_txid_1]" sample_library "block_file altered_header"
      altered_header 1 "[genesis_coinbase]" "[genesis_txid]"
      "\<lparr> rs_data = [], rs_offset = 0 \<rparr>"]
  have rb: "read_block sample_library (block_file altered_header) =
     Inr (altered_header, 1, [genesis_coinbase], [genesis_txid])"
    using altered_header_length by (rule sample_read_block)
  have th: "map (TxHash sample_library) [genesis_coinbase] = [genesis_txid]"
    by (simp add: sample_library_def)
  have ne: "computeMerkleRoot (DoubleHashH sample_library)
      (map (TxHash sample_library) [genesis_coinbase]) \<noteq> hdr_MerkleRoot altered_header"
    unfolding th computeMerkleRoot_single using altered_merkle by simp
  have lv: "computeMerkleRoot (DoubleHashH sample_library) [block170_txid_0, block170_txid_1] =
     block170_merkle_root"
    using t block170_merkle by (simp add: computeMerkleRoot_single)
  from t rb ne lv show ?thesis
    by (simp add: altered_block_hash)
qed

subsection \<open>Failures of the undo decoder\<close>

lemma parseOneBlock_undo_failure:
  assumes "read_block lib blkReader = Inr (header, txCount, transactions, txHashes)"
    and "computeMerkleRoot (DoubleHashH lib) txHashes = hdr_MerkleRoot header"
    and "parseUndoFile lib revReader transactions = Inl err"
    and "\<not> is_panic err"
  shows "parseOneBlock lib blkReader revReader =
           Inr (error_BlockOutput (Hash_String (BlockHash lib header)) ''INVALID_UNDO_DATA'')"
  using assms by (simp add: parseOneBlock_def Let_def)

lemma parseOneBlock_undo_panic:
  assumes "read_block lib blkReader = Inr (header, txCount, transactions, txHashes)"
    and "computeMerkleRoot (DoubleHashH lib) txHashes = hdr_MerkleRoot header"
    and "parseUndoFile lib revReader transactions = Inl err"
    and "is_panic err"
  shows "parseOneBlock lib blkReader revReader = Inl err"
  using assms by (simp add: parseOneBlock_def Let_def)

lemma finish_block_no_error:
  "finish_block lib header txCount transactions prevouts = Inr block \<Longrightarrow> blk_Error block = None"
  by (auto simp: finish_block_def Let_def split: if_splits sum.splits)

lemma parseOneBlock_codes:
  assumes "parseOneBlock lib blkReader revReader = Inr block"
  shows "blk_Error block = Some ''INVALID_MERKLE_ROOT'' \<or>
         blk_Error block = Some ''INVALID_UNDO_DATA'' \<or> blk_Error block = None"
proof -
  from assms consider
      (merkle) bh where "block = error_BlockOutput bh ''INVALID_MERKLE_ROOT''"
    | (undo) bh where "block = error_BlockOutput bh ''INVALID_UNDO_DATA''"
    | (finish) h c ts ps where "finish_block lib h c ts ps = Inr block"
    by (auto simp: parseOneBlock_def Let_def split: sum.splits if_splits)
  then show ?thesis
  proof cases
    case merkle
    then show ?thesis by (simp add: error_BlockOutput_def)
  next
    case undo
    then show ?thesis by (simp add: error_BlockOutput_def)
  next
    case finish
    then have "blk_Error block = None" by (rule finish_block_no_error)
    then show ?thesis by simp
  qed
qed

text \<open>A rev file made of framed records none of which has the wanted count, followed
  by fewer than 8 bytes: the decoder skips every record and reaches the end of the file.\<close>

lemma undo_record_mismatch_count:
  assumes "undo_record_mismatch wantCount x"
  shows "\<exists>cnt r. ReadCompactSize (slice x 8 (length x - 32)) = Inr (cnt, r) \<and> cnt \<noteq> wantCount"
  using assms by (auto simp: undo_record_mismatch_def split: sum.splits)

lemma undo_record_parts:
  fixes x :: "byte list"
  assumes len: "40 \<le> length x"
  shows "x = take 8 x @ slice x 8 (length x - 32) @ drop (length x - 32) x"
proof -
  have d: "drop (length x - 32) x = drop (length x - 40) (drop 8 x)"
    using len by simp
  have p: "slice x 8 (length x - 32) = take (length x - 40) (drop 8 x)"
    using len by (simp add: slice_def)
  have "slice x 8 (length x - 32) @ drop (length x - 32) x =
      take (length x - 40) (drop 8 x) @ drop (length x - 40) (drop 8 x)"
    by (simp only: p d)
  also have "\<dots> = drop 8 x"
    by (rule append_take_drop_id)
  finally show ?thesis by simp
qed

lemma undo_record_sizes:
  fixes x :: "byte list"
  assumes len: "40 \<le> length x"
    and sz: "length x = 8 + unat (le_uint (slice x 4 8) :: u32) + 32"
  shows "slice (take 8 x) 4 8 = slice x 4 8"
    and "length (slice x 8 (length x - 32)) = unat (le_uint (slice x 4 8) :: u32)"
proof -
  show "slice (take 8 x) 4 8 = slice x 4 8"
    by (simp add: slice_def drop_take)
  have "length (slice x 8 (length x - 32)) = length x - 40"
    using len by (simp add: slice_def)
  also have "\<dots> = unat (le_uint (slice x 4 8) :: u32)"
    using sz by arith
  finally show "length (slice x 8 (length x - 32)) = unat (le_uint (slice x 4 8) :: u32)" .
qed

lemma undo_record_mismatch_skip:
  assumes "undo_record_mismatch wantCount x"
  shows "parseUndoFile_loop lib (x @ rest) 0 wantCount =
           parseUndoFile_loop lib rest 0 wantCount"
proof -
  let ?header = "take 8 x"
  let ?payload = "slice x 8 (length x - 32)"
  let ?hash = "drop (length x - 32) x"
  from assms have len: "40 \<le> length x"
    and sz: "length x = 8 + unat (le_uint (slice x 4 8) :: u32) + 32"
    by (simp_all add: undo_record_mismatch_def)
  from undo_record_mismatch_count [OF assms] obtain cnt r
    where c: "ReadCompactSize ?payload = Inr (cnt, r)" and ne: "cnt \<noteq> wantCount"
    by blast
  have h8: "length ?header = 8" using len by simp
  have lp: "length ?payload = unat (le_uint (slice ?header 4 8) :: u32)"
    by (simp only: undo_record_sizes [OF len sz])
  have lh: "length ?hash = 32" using len by simp
  have "parseUndoFile_loop lib ([] @ ?header @ ?payload @ ?hash @ rest)
          (length ([] :: byte list)) wantCount = parseUndoFile_loop lib rest 0 wantCount"
    using h8 lp lh c ne by (rule parseUndoFile_loop_skip_record(2))
  then have "parseUndoFile_loop lib ((?header @ ?payload @ ?hash) @ rest) 0 wantCount =
      parseUndoFile_loop lib rest 0 wantCount"
    by (simp only: append_Nil list.size append_assoc)
  then show ?thesis
    by (simp only: undo_record_parts [OF len, symmetric])
qed

lemma parseUndoFile_loop_no_match:
  "list_all (undo_record_mismatch wantCount) records \<Longrightarrow> length tail < 8 \<Longrightarrow>
   parseUndoFile_loop lib (concat records @ tail) 0 wantCount =
     Inl (Errorf ''parseUndoFile: no matching undo record found in rev file'' None)"
proof (induction records)
  case Nil
  then show ?case by (simp add: parseUndoFile_loop_eof)
next
  case (Cons x xs)
  from Cons.prems(1) have m: "undo_record_mismatch wantCount x"
    and ms: "list_all (undo_record_mismatch wantCount) xs" by simp_all
  have "parseUndoFile_loop lib (concat (x # xs) @ tail) 0 wantCount =
        parseUndoFile_loop lib (x @ (concat xs @ tail)) 0 wantCount"
    by simp
  also have "\<dots> = parseUndoFile_loop lib (concat xs @ tail) 0 wantCount"
    using m by (rule undo_record_mismatch_skip)
  also have "\<dots> =
      Inl (Errorf ''parseUndoFile: no matching undo record found in rev file'' None)"
    using ms Cons.prems(2) by (rule Cons.IH)
  finally show ?case .
qed

lemma sample_mismatch: "undo_record_mismatch 0 undo_record_two"
  by code_simp

lemma sample_no_match:
  "parseUndoFile sample_library \<lparr> rs_data = undo_record_two, rs_offset = 0 \<rparr> [genesis_coinbase] =
     Inl (Errorf ''parseUndoFile: no matching undo record found in rev file'' None)"
  by code_simp

lemma genesis_read_block:
  "read_block sample_library (block_file genesis_header) =
     Inr (genesis_header, 1, [genesis_coinbase], [genesis_txid])"
  using genesis_header_length by (rule sample_read_block)

lemma genesis_merkle_valid:
  "computeMerkleRoot (DoubleHashH sample_library) [genesis_txid] = hdr_MerkleRoot genesis_header"
  by (simp add: computeMerkleRoot_single genesis_merkle)

lemma genesis_undo_failure:
  "parseOneBlock sample_library (block_file genesis_header)
     \<lparr> rs_data = undo_record_two, rs_offset = 0 \<rparr> =
   Inr (error_BlockOutput
          ''000000000019d6689c085ae165831e934ff763ae46a2a6c172b3f1b60a8ce26f''
          ''INVALID_UNDO_DATA'')"
  using parseOneBlock_undo_failure [OF genesis_read_block genesis_merkle_valid sample_no_match]
  by (simp add: genesis_block_hash)

text \<open>
  On the sample block with a rev file that holds one record of another block, the undo
  decoder skips the record and reaches the end of the file; the block analysis reports
  \<open>INVALID_UNDO_DATA\<close>, not \<open>UNDO_NOT_FOUND\<close>.
\<close>

theorem undo_not_found_counterexample:
  "parseUndoFile sample_library \<lparr> rs_data = undo_record_two, rs_offset = 0 \<rparr> [genesis_coinbase] =
     Inl (Errorf ''parseUndoFile: no matching undo record found in rev file'' None) \<and>
   ParseBlock sample_library (block_file genesis_header) undo_record_two [] =
     Inr [error_BlockOutput
            ''000000000019d6689c085ae165831e934ff763ae46a2a6c172b3f1b60a8ce26f''
            ''INVALID_UNDO_DATA''] \<and>
   blk_Error (error_BlockOutput
                ''000000000019d6689c085ae165831e934ff763ae46a2a6c172b3f1b60a8ce26f''
                ''INVALID_UNDO_DATA'') \<noteq> Some ''UNDO_NOT_FOUND''"
  using sample_no_match genesis_undo_failure
  by (simp add: ParseBlock_def XORDecode_def Let_def error_BlockOutput_def)

text \<open>
  C1 (as the code has it). When the undo decoder reaches the end of the rev file before
  it finds a record whose first \<open>num_tx_undos\<close> CompactSize equals \<open>tx_count - 1\<close>, the
  block analysis reports the error code \<open>INVALID_UNDO_DATA\<close>, with the block hash, for
  every block whose records parse and whose Merkle root is valid. The end of the file is
  reached when fewer than 8 bytes are left at the start of a record, in particular on
  every rev file made of framed records none of which has the wanted count; the decoder
  then returns its error "no matching undo record".
\<close>

theorem undo_failure_reported:
  "(list_all (undo_record_mismatch (of_int (int (length transactions) - 1))) records \<and>
    length tail < 8 \<longrightarrow>
      parseUndoFile lib \<lparr> rs_data = concat records @ tail, rs_offset = 0 \<rparr> transactions =
        Inl (Errorf ''parseUndoFile: no matching undo record found in rev file'' None)) \<and>
   (length (rs_data revReader) < rs_offset revReader + 8 \<longrightarrow>
      parseUndoFile lib revReader transactions =
        Inl (Errorf ''parseUndoFile: no matching undo record found in rev file'' None)) \<and>
   (read_block lib blkReader = Inr (header, txCount, transactions, txHashes) \<and>
    computeMerkleRoot (DoubleHashH lib) txHashes = hdr_MerkleRoot header \<and>
    parseUndoFile lib revReader transactions =
      Inl (Errorf ''parseUndoFile: no matching undo record found in rev file'' None)
    \<longrightarrow>
      parseOneBlock lib blkReader revReader =
        Inr (error_BlockOutput (Hash_String (BlockHash lib header)) ''INVALID_UNDO_DATA''))"
proof (intro conjI impI)
  assume "list_all (undo_record_mismatch (of_int (int (length transactions) - 1))) records \<and>
    length tail < 8"
  then show "parseUndoFile lib \<lparr> rs_data = concat records @ tail, rs_offset = 0 \<rparr> transactions =
        Inl (Errorf ''parseUndoFile: no matching undo record found in rev file'' None)"
    by (simp add: parseUndoFile_def Let_def parseUndoFile_loop_no_match)
next
  assume "length (rs_data revReader) < rs_offset revReader + 8"
  then show "parseUndoFile lib revReader transactions =
        Inl (Errorf ''parseUndoFile: no matching undo record found in rev file'' None)"
    by (simp add: parseUndoFile_def Let_def parseUndoFile_loop_eof)
next
  assume a: "read_block lib blkReader = Inr (header, txCount, transactions, txHashes) \<and>
    computeMerkleRoot (DoubleHashH lib) txHashes = hdr_MerkleRoot header \<and>
    parseUndoFile lib revReader transactions =
      Inl (Errorf ''parseUndoFile: no matching undo record found in rev file'' None)"
  have "\<not> is_panic (Errorf ''parseUndoFile: no matching undo record found in rev file'' None)"
    by simp
  with a show "parseOneBlock lib blkReader revReader =
        Inr (error_BlockOutput (Hash_String (BlockHash lib header)) ''INVALID_UNDO_DATA'')"
    using parseOneBlock_undo_failure by blast
qed

theorem undo_failure_reported_witness:
  "list_all (undo_record_mismatch (of_int (int (length [genesis_coinbase]) - 1)))
     [undo_record_two] \<and>
   length ([] :: byte list) < 8 \<and>
   parseUndoFile sample_library \<lparr> rs_data = concat [undo_record_two] @ [], rs_offset = 0 \<rparr>
     [genesis_coinbase] =
     Inl (Errorf ''parseUndoFile: no matching undo record found in rev file'' None) \<and>
   length (rs_data \<lparr> rs_data = undo_record_two, rs_offset = 43 \<rparr>) <
     rs_offset \<lparr> rs_data = undo_record_two, rs_offset = 43 \<rparr> + 8 \<and>
   parseUndoFile sample_library \<lparr> rs_data = undo_record_two, rs_offset = 43 \<rparr> [genesis_coinbase] =
     Inl (Errorf ''parseUndoFile: no matching undo record found in rev file'' None) \<and>
   read_block sample_library (block_file genesis_header) =
     Inr (genesis_header, 1, [genesis_coinbase], [genesis_txid]) \<and>
   computeMerkleRoot (DoubleHashH sample_library) [genesis_txid] = hdr_MerkleRoot genesis_header \<and>
   parseUndoFile sample_library \<lparr> rs_data = undo_record_two, rs_offset = 0 \<rparr> [genesis_coinbase] =
     Inl (Errorf ''parseUndoFile: no matching undo record found in rev file'' None) \<and>
   parseOneBlock sample_library (block_file genesis_header)
     \<lparr> rs_data = undo_record_two, rs_offset = 0 \<rparr> =
     Inr (error_BlockOutput
            ''000000000019d6689c085ae165831e934ff763ae46a2a6c172b3f1b60a8ce26f''
            ''INVALID_UNDO_DATA'')"
proof -
  note a = undo_failure_reported [where lib = sample_library
      and blkReader = "block_file genesis_header" and header = genesis_header and txCount = 1
      and transactions = "[genesis_coinbase]" and txHashes = "[genesis_txid]"
      and revReader = "\<lparr> rs_data = undo_record_two, rs_offset = 0 \<rparr>"
      and records = "[undo_record_two]" and tail = "[]"]
  note b = undo_failure_reported [where lib = sample_library
      and blkReader = "block_file genesis_header" and header = genesis_header and txCount = 1
      and transactions = "[genesis_coinbase]" and txHashes = "[genesis_txid]"
      and revReader = "\<lparr> rs_data = undo_record_two, rs_offset = 43 \<rparr>"
      and records = "[undo_record_two]" and tail = "[]"]
  have m: "list_all (undo_record_mismatch (of_int (int (length [genesis_coinbase]) - 1)))
     [undo_record_two]"
    using sample_mismatch by simp
  have len: "length undo_record_two = 43" by (simp add: undo_record_two_def)
  from a b m genesis_read_block genesis_merkle_valid sample_no_match len show ?thesis
    by (simp add: genesis_block_hash)
qed
end
